theory Spec2Isabelle
  imports Main "HOL-Library.Word" "HOL-Library.Code_Target_Numeral"
begin

section \<open>C arithmetic used by the DataFlowSanitizer gradient runtime\<close>

subsection \<open>Binary floating point (\<open>float\<close> and \<open>double\<close>)\<close>

text \<open>
  The derivative fields \<open>neg_dydx\<close> and \<open>pos_dydx\<close> of a label are C \<open>float\<close>s, and the
  propagation functions compute with \<open>float\<close> and \<open>double\<close> operands.  A floating-point
  value is a NaN, a signed infinity, or a signed dyadic number \<open>(-1)^s * m * 2^e\<close>.  Every
  operation computes the exact result and rounds it to nearest, ties to even, in the
  format of the C expression (x86-64, SSE arithmetic: \<open>float\<close> is binary32 and \<open>double\<close>
  is binary64).  Rounding returns the canonical representative: the mantissa has exactly
  \<open>prec\<close> bits, or fewer at the least exponent \<open>emin\<close> (subnormals); a zero is
  \<open>FFin s 0 0\<close> in every format.
\<close>

datatype fp = FNaN | FInf bool | FFin bool nat int

record fmt =
  prec :: nat
  emin :: int
  emax :: int

definition binary32 :: fmt where
  "binary32 = \<lparr>prec = 24, emin = - 149, emax = 104\<rparr>"

definition binary64 :: fmt where
  "binary64 = \<lparr>prec = 53, emin = - 1074, emax = 971\<rparr>"

fun bitlen :: "nat \<Rightarrow> nat" where
  "bitlen n = (if n = 0 then 0 else Suc (bitlen (n div 2)))"

declare bitlen.simps [simp del]

text \<open>\<open>fround f s m e\<close> rounds the exact value \<open>(-1)^s * m * 2^e\<close> into the format \<open>f\<close>.\<close>

definition fround :: "fmt \<Rightarrow> bool \<Rightarrow> nat \<Rightarrow> int \<Rightarrow> fp" where
  "fround f s m e =
     (if m = 0 then FFin s 0 0
      else
        let e' = max (e + int (bitlen m) - int (prec f)) (emin f) in
        if e' \<le> e then
          (if e' > emax f then FInf s else FFin s (m * 2 ^ nat (e - e')) e')
        else
          let d = nat (e' - e);
              q = m div 2 ^ d;
              r = m mod 2 ^ d;
              h = 2 ^ (d - 1);
              q' = (if r > h \<or> (r = h \<and> odd q) then q + 1 else q)
          in
            if q' = 2 ^ prec f then
              (if e' + 1 > emax f then FInf s else FFin s (2 ^ (prec f - 1)) (e' + 1))
            else if e' > emax f then FInf s
            else if q' = 0 then FFin s 0 0
            else FFin s q' e')"

text \<open>
  \<open>fround_div f s p q e\<close> rounds \<open>(-1)^s * (p / q) * 2^e\<close>: the quotient is computed with
  three guard bits, the last one a sticky bit for a nonzero remainder.
\<close>

definition fround_div :: "fmt \<Rightarrow> bool \<Rightarrow> nat \<Rightarrow> nat \<Rightarrow> int \<Rightarrow> fp" where
  "fround_div f s p q e =
     (let n = nat (int (prec f) + 2 + int (bitlen q) - int (bitlen p));
          a = (p * 2 ^ n) div q;
          b = (p * 2 ^ n) mod q
      in fround f s (2 * a + (if b = 0 then 0 else 1)) (e - int n - 1))"

definition fzero :: fp where
  "fzero = FFin False 0 0"

definition is_zero :: "fp \<Rightarrow> bool" where
  "is_zero x = (case x of FFin s m e \<Rightarrow> m = 0 | _ \<Rightarrow> False)"

definition is_nan :: "fp \<Rightarrow> bool" where
  "is_nan x = (case x of FNaN \<Rightarrow> True | _ \<Rightarrow> False)"

definition fneg :: "fp \<Rightarrow> fp" where
  "fneg x = (case x of FNaN \<Rightarrow> FNaN | FInf s \<Rightarrow> FInf (\<not> s) | FFin s m e \<Rightarrow> FFin (\<not> s) m e)"

text \<open>The signed mantissa of a finite value at the exponent \<open>E\<close> (\<open>E\<close> at most its own).\<close>

definition scaled :: "bool \<Rightarrow> nat \<Rightarrow> int \<Rightarrow> int \<Rightarrow> int" where
  "scaled s m e E = (if s then - 1 else 1) * int m * 2 ^ nat (e - E)"

definition fadd :: "fmt \<Rightarrow> fp \<Rightarrow> fp \<Rightarrow> fp" where
  "fadd f x y =
     (case (x, y) of
        (FNaN, _) \<Rightarrow> FNaN
      | (_, FNaN) \<Rightarrow> FNaN
      | (FInf s, FInf t) \<Rightarrow> (if s = t then FInf s else FNaN)
      | (FInf s, _) \<Rightarrow> FInf s
      | (_, FInf t) \<Rightarrow> FInf t
      | (FFin s m e, FFin t n g) \<Rightarrow>
          (let E = min e g;
               v = scaled s m e E + scaled t n g E
           in if v = 0 then FFin (s \<and> t) 0 0
              else fround f (v < 0) (nat \<bar>v\<bar>) E))"

definition fsub :: "fmt \<Rightarrow> fp \<Rightarrow> fp \<Rightarrow> fp" where
  "fsub f x y = fadd f x (fneg y)"

definition fmul :: "fmt \<Rightarrow> fp \<Rightarrow> fp \<Rightarrow> fp" where
  "fmul f x y =
     (case (x, y) of
        (FNaN, _) \<Rightarrow> FNaN
      | (_, FNaN) \<Rightarrow> FNaN
      | (FInf s, FInf t) \<Rightarrow> FInf (s \<noteq> t)
      | (FInf s, FFin t n g) \<Rightarrow> (if n = 0 then FNaN else FInf (s \<noteq> t))
      | (FFin s m e, FInf t) \<Rightarrow> (if m = 0 then FNaN else FInf (s \<noteq> t))
      | (FFin s m e, FFin t n g) \<Rightarrow> fround f (s \<noteq> t) (m * n) (e + g))"

definition fdiv :: "fmt \<Rightarrow> fp \<Rightarrow> fp \<Rightarrow> fp" where
  "fdiv f x y =
     (case (x, y) of
        (FNaN, _) \<Rightarrow> FNaN
      | (_, FNaN) \<Rightarrow> FNaN
      | (FInf s, FInf t) \<Rightarrow> FNaN
      | (FInf s, FFin t n g) \<Rightarrow> FInf (s \<noteq> t)
      | (FFin s m e, FInf t) \<Rightarrow> FFin (s \<noteq> t) 0 0
      | (FFin s m e, FFin t n g) \<Rightarrow>
          (if n = 0 then (if m = 0 then FNaN else FInf (s \<noteq> t))
           else if m = 0 then FFin (s \<noteq> t) 0 0
           else fround_div f (s \<noteq> t) m n (e - g)))"

text \<open>C's \<open>fmod\<close>: the remainder of the division truncated towards zero, which is exact.\<close>

definition fmod :: "fmt \<Rightarrow> fp \<Rightarrow> fp \<Rightarrow> fp" where
  "fmod f x y =
     (case (x, y) of
        (FNaN, _) \<Rightarrow> FNaN
      | (_, FNaN) \<Rightarrow> FNaN
      | (FInf s, _) \<Rightarrow> FNaN
      | (FFin s m e, FInf t) \<Rightarrow> FFin s m e
      | (FFin s m e, FFin t n g) \<Rightarrow>
          (if n = 0 then FNaN
           else let E = min e g
                in fround f s ((m * 2 ^ nat (e - E)) mod (n * 2 ^ nat (g - E))) E))"

text \<open>Comparisons: a NaN is unordered and unequal to everything, the two zeros are equal.\<close>

definition flt :: "fp \<Rightarrow> fp \<Rightarrow> bool" where
  "flt x y =
     (case (x, y) of
        (FNaN, _) \<Rightarrow> False
      | (_, FNaN) \<Rightarrow> False
      | (FInf s, FInf t) \<Rightarrow> s \<and> \<not> t
      | (FInf s, FFin t n g) \<Rightarrow> s
      | (FFin s m e, FInf t) \<Rightarrow> \<not> t
      | (FFin s m e, FFin t n g) \<Rightarrow>
          (let E = min e g in scaled s m e E < scaled t n g E))"

definition fgt :: "fp \<Rightarrow> fp \<Rightarrow> bool" where
  "fgt x y = flt y x"

definition feq :: "fp \<Rightarrow> fp \<Rightarrow> bool" where
  "feq x y =
     (case (x, y) of
        (FNaN, _) \<Rightarrow> False
      | (_, FNaN) \<Rightarrow> False
      | (FInf s, FInf t) \<Rightarrow> s = t
      | (FInf s, FFin t n g) \<Rightarrow> False
      | (FFin s m e, FInf t) \<Rightarrow> False
      | (FFin s m e, FFin t n g) \<Rightarrow>
          (let E = min e g in scaled s m e E = scaled t n g E))"

definition fne :: "fp \<Rightarrow> fp \<Rightarrow> bool" where
  "fne x y = (\<not> feq x y)"

text \<open>Conversions: integer to floating point, between formats, and to an integer
  (truncation towards zero; \<open>None\<close> for a NaN or an infinity).\<close>

definition fp_of_int :: "fmt \<Rightarrow> int \<Rightarrow> fp" where
  "fp_of_int f i = fround f (i < 0) (nat \<bar>i\<bar>) 0"

definition fcvt :: "fmt \<Rightarrow> fp \<Rightarrow> fp" where
  "fcvt f x = (case x of FFin s m e \<Rightarrow> fround f s m e | _ \<Rightarrow> x)"

definition ftrunc :: "fp \<Rightarrow> int option" where
  "ftrunc x =
     (case x of
        FFin s m e \<Rightarrow>
          Some ((if s then - 1 else 1) *
                (if 0 \<le> e then int m * 2 ^ nat e else int (m div 2 ^ nat (- e))))
      | _ \<Rightarrow> None)"

text \<open>The literal \<open>0.00001\<close> of the sampling loops is a \<open>double\<close>.\<close>

definition eps_lit :: fp where
  "eps_lit = fround_div binary64 False 1 100000 0"

text \<open>The \<open>float\<close> literals \<open>0\<close> and \<open>1.0\<close>, in canonical binary32 form.\<close>

definition fone :: fp where
  "fone = FFin False 8388608 (- 23)"

subsection \<open>Errors that end the process\<close>

text \<open>
  What ends the process is a result of the model: \<open>Die()\<close> after a report, a failed
  \<open>assert\<close>, and the divide error of the x86-64 division instructions (SIGFPE), raised
  for a zero divisor and for a signed quotient that does not fit.  A call returns \<open>Inl\<close>
  of the error or \<open>Inr\<close> of its normal result.  Other operations that the C standard
  leaves undefined do not end the process: the model gives them the result of the
  x86-64 code that GCC and Clang emit for the macro (two's complement wrap-around,
  shift counts taken modulo the width, \<open>cvttss2si\<close> for the conversion of a \<open>float\<close>).
  \<open>UndefinedBehaviour\<close> is left for a sampling loop whose counter would pass \<open>INT_MAX\<close>.
\<close>

datatype error =
    OutOfLabels
  | OutOfFuncRecords
  | NonInstrumentedUnion
  | AssertionFailed
  | IntDivByZero
  | IntDivOverflow
  | UndefinedBehaviour

fun ebind :: "error + 'a \<Rightarrow> ('a \<Rightarrow> error + 'b) \<Rightarrow> error + 'b" where
  "ebind (Inl e) k = Inl e"
| "ebind (Inr x) k = k x"

subsection \<open>Integer types and operators\<close>

text \<open>
  The integer types of the macro instantiations (LP64: \<open>char\<close> is signed and 8 bits,
  \<open>int\<close> is 32 bits, \<open>long\<close> is 64 bits).  A value is an \<open>int\<close> in the range of its type.
  Operands are promoted and converted as C prescribes before an operator is applied.
\<close>

datatype cty = U8 | S8 | U16 | S16 | S32 | U32 | S64 | U64

type_synonym cval = "cty \<times> int"

fun cbits :: "cty \<Rightarrow> nat" where
  "cbits U8 = 8" | "cbits S8 = 8" | "cbits U16 = 16" | "cbits S16 = 16"
| "cbits S32 = 32" | "cbits U32 = 32" | "cbits S64 = 64" | "cbits U64 = 64"

fun csigned :: "cty \<Rightarrow> bool" where
  "csigned U8 = False" | "csigned S8 = True" | "csigned U16 = False" | "csigned S16 = True"
| "csigned S32 = True" | "csigned U32 = False" | "csigned S64 = True" | "csigned U64 = False"

definition in_range :: "cty \<Rightarrow> int \<Rightarrow> bool" where
  "in_range t v =
     (if csigned t then - (2 ^ (cbits t - 1)) \<le> v \<and> v < 2 ^ (cbits t - 1)
      else 0 \<le> v \<and> v < 2 ^ cbits t)"

text \<open>Conversion to an integer type: modulo \<open>2^N\<close> (for a signed target this is the
  implementation-defined choice of GCC and Clang).\<close>

definition ccast :: "cty \<Rightarrow> int \<Rightarrow> int" where
  "ccast t v =
     (if csigned t then (v + 2 ^ (cbits t - 1)) mod 2 ^ cbits t - 2 ^ (cbits t - 1)
      else v mod 2 ^ cbits t)"

definition conv :: "cty \<Rightarrow> cval \<Rightarrow> cval" where
  "conv t a = (t, ccast t (snd a))"

definition promote :: "cty \<Rightarrow> cty" where
  "promote t = (if cbits t < 32 then S32 else t)"

text \<open>The usual arithmetic conversions, on promoted types.\<close>

definition uac :: "cty \<Rightarrow> cty \<Rightarrow> cty" where
  "uac a b =
     (let a' = promote a; b' = promote b in
      if a' = b' then a'
      else if a' = U64 \<or> b' = U64 then U64
      else if a' = S64 \<or> b' = S64 then S64
      else U32)"

text \<open>
  The result of \<open>+\<close>, \<open>-\<close> or \<open>*\<close> whose exact value is \<open>r\<close>, in the type \<open>t\<close>: the
  \<open>add\<close>, \<open>sub\<close> and \<open>imul\<close> instructions compute modulo \<open>2^N\<close>, for a signed type as for
  an unsigned one (the runtime is not compiled with trapping arithmetic).
\<close>

definition c_arith :: "cty \<Rightarrow> int \<Rightarrow> error + cval" where
  "c_arith t r = Inr (t, ccast t r)"

definition c_add :: "cval \<Rightarrow> cval \<Rightarrow> error + cval" where
  "c_add a b = (let t = uac (fst a) (fst b) in c_arith t (ccast t (snd a) + ccast t (snd b)))"

definition c_sub :: "cval \<Rightarrow> cval \<Rightarrow> error + cval" where
  "c_sub a b = (let t = uac (fst a) (fst b) in c_arith t (ccast t (snd a) - ccast t (snd b)))"

definition c_mul :: "cval \<Rightarrow> cval \<Rightarrow> error + cval" where
  "c_mul a b = (let t = uac (fst a) (fst b) in c_arith t (ccast t (snd a) * ccast t (snd b)))"

text \<open>\<open>/\<close> and \<open>%\<close> truncate towards zero.  \<open>div\<close> and \<open>idiv\<close> raise the divide error for a
  zero divisor, and \<open>idiv\<close> also when the quotient is not a value of the type
  (\<open>INT_MIN / -1\<close> and \<open>INT_MIN % -1\<close>).\<close>

definition tdiv :: "int \<Rightarrow> int \<Rightarrow> int" where
  "tdiv a b = sgn a * sgn b * (\<bar>a\<bar> div \<bar>b\<bar>)"

definition trem :: "int \<Rightarrow> int \<Rightarrow> int" where
  "trem a b = sgn a * (\<bar>a\<bar> mod \<bar>b\<bar>)"

definition c_div :: "cval \<Rightarrow> cval \<Rightarrow> error + cval" where
  "c_div a b =
     (let t = uac (fst a) (fst b); x = ccast t (snd a); y = ccast t (snd b) in
      if y = 0 then Inl IntDivByZero
      else if csigned t \<and> \<not> in_range t (tdiv x y) then Inl IntDivOverflow
      else Inr (t, tdiv x y))"

definition c_rem :: "cval \<Rightarrow> cval \<Rightarrow> error + cval" where
  "c_rem a b =
     (let t = uac (fst a) (fst b); x = ccast t (snd a); y = ccast t (snd b) in
      if y = 0 then Inl IntDivByZero
      else if csigned t \<and> \<not> in_range t (tdiv x y) then Inl IntDivOverflow
      else Inr (t, trem x y))"

text \<open>
  Shifts have the promoted type of the left operand.  The shift instructions (\<open>shl\<close>,
  \<open>shr\<close>, \<open>sar\<close>) take the count from the low bits of \<open>cl\<close>, that is modulo the width (32
  or 64) of the operand, whatever the type and the sign of the count.  \<open><<\<close> keeps the low
  bits of the product, also for a negative operand; \<open>>>\<close> on a signed operand is an
  arithmetic shift.
\<close>

definition shift_count :: "cty \<Rightarrow> int \<Rightarrow> nat" where
  "shift_count t n = nat (n mod int (cbits t))"

definition c_shl :: "cval \<Rightarrow> cval \<Rightarrow> error + cval" where
  "c_shl a b =
     (let t = promote (fst a); x = snd a; n = shift_count t (snd b) in
      Inr (t, ccast t (x * 2 ^ n)))"

definition c_shr :: "cval \<Rightarrow> cval \<Rightarrow> error + cval" where
  "c_shr a b =
     (let t = promote (fst a); x = snd a; n = shift_count t (snd b) in
      Inr (t, x div 2 ^ n))"

definition c_and :: "cval \<Rightarrow> cval \<Rightarrow> error + cval" where
  "c_and a b = (let t = uac (fst a) (fst b) in Inr (t, and (ccast t (snd a)) (ccast t (snd b))))"

definition c_or :: "cval \<Rightarrow> cval \<Rightarrow> error + cval" where
  "c_or a b = (let t = uac (fst a) (fst b) in Inr (t, or (ccast t (snd a)) (ccast t (snd b))))"

definition c_xor :: "cval \<Rightarrow> cval \<Rightarrow> error + cval" where
  "c_xor a b = (let t = uac (fst a) (fst b) in Inr (t, xor (ccast t (snd a)) (ccast t (snd b))))"

text \<open>
  Integer to \<open>float\<close>, and \<open>float\<close> to an integer type.  The conversion is compiled to
  \<open>cvttss2si\<close>, which truncates towards zero and yields the least value of its 32-bit or
  64-bit destination (the "integer indefinite") for a NaN, an infinity and a value out
  of the range of the destination.  A type narrower than 32 bits takes the low bits of
  the 32-bit result, \<open>uint32_t\<close> the low 32 bits of the 64-bit result, and \<open>long\<close> the
  64-bit result.  For \<open>uint64_t\<close> a value below \<open>2^63\<close> (and a NaN) is converted as for
  \<open>long\<close>; of another value \<open>2^63\<close> is subtracted before the conversion and the top bit
  of the result is flipped after it, which gives the value itself below \<open>2^64\<close> and 0
  from there on.
\<close>

definition to_float :: "int \<Rightarrow> fp" where
  "to_float i = fp_of_int binary32 i"

definition cvttss2si :: "nat \<Rightarrow> fp \<Rightarrow> int" where
  "cvttss2si w x =
     (case ftrunc x of
        None \<Rightarrow> - (2 ^ (w - 1))
      | Some i \<Rightarrow> if - (2 ^ (w - 1)) \<le> i \<and> i < 2 ^ (w - 1) then i else - (2 ^ (w - 1)))"

definition cvt_u64 :: "fp \<Rightarrow> int" where
  "cvt_u64 x =
     (case ftrunc x of
        None \<Rightarrow> (if x = FInf False then 0 else 2 ^ 63)
      | Some i \<Rightarrow>
          if i < 2 ^ 63 then ccast U64 (cvttss2si 64 x)
          else if i < 2 ^ 64 then i
          else 0)"

definition c_of_fp :: "cty \<Rightarrow> fp \<Rightarrow> error + cval" where
  "c_of_fp t x =
     Inr (t, if t = U64 then cvt_u64 x
             else if t = S64 \<or> t = U32 then ccast t (cvttss2si 64 x)
             else ccast t (cvttss2si 32 x))"

section \<open>Runtime state\<close>

text \<open>
  \<open>dfsan_label\<close> is \<open>u16\<close>.  \<open>struct dfsan_label_info\<close> (dfsan.h) holds the two parent
  labels, the source location, the two one-sided derivatives, the opcode and the last
  concrete value.  A \<open>const char *\<close> is a string, or \<open>None\<close> for the null pointer.
\<close>

type_synonym dfsan_label = "16 word"

record dfsan_label_info =
  li_l1 :: dfsan_label
  li_l2 :: dfsan_label
  li_loc :: "string option"
  li_neg_dydx :: fp
  li_pos_dydx :: fp
  li_opcode :: dfsan_label
  li_f_val :: int

record branch_record =
  br_file_id :: "64 word"
  br_inst_id :: "64 word"
  br_lhs_label :: dfsan_label
  br_rhs_label :: dfsan_label
  br_lhs_v :: fp
  br_rhs_v :: fp
  br_lhs_ndx :: fp
  br_lhs_pdx :: fp
  br_rhs_ndx :: fp
  br_rhs_pdx :: fp
  br_cond :: bool
  br_is_ptr :: "32 word"
  br_loc :: "string option"

record func_arg_record =
  fa_file_id :: "64 word"
  fa_inst_id :: "32 word"
  fa_arg_ind :: "32 word"
  fa_label :: dfsan_label
  fa_v :: fp
  fa_ndx :: fp
  fa_pdx :: fp
  fa_loc :: "string option"

definition zero_label_info :: dfsan_label_info where
  "zero_label_info =
     \<lparr>li_l1 = 0, li_l2 = 0, li_loc = None, li_neg_dydx = fzero, li_pos_dydx = fzero,
      li_opcode = 0, li_f_val = 0\<rparr>"

definition zero_branch_record :: branch_record where
  "zero_branch_record =
     \<lparr>br_file_id = 0, br_inst_id = 0, br_lhs_label = 0, br_rhs_label = 0, br_lhs_v = fzero,
      br_rhs_v = fzero, br_lhs_ndx = fzero, br_lhs_pdx = fzero, br_rhs_ndx = fzero,
      br_rhs_pdx = fzero, br_cond = False, br_is_ptr = 0, br_loc = None\<rparr>"

definition zero_func_arg_record :: func_arg_record where
  "zero_func_arg_record =
     \<lparr>fa_file_id = 0, fa_inst_id = 0, fa_arg_ind = 0, fa_label = 0, fa_v = fzero,
      fa_ndx = fzero, fa_pdx = fzero, fa_loc = None\<rparr>"

text \<open>
  The globals of dfsan.cc: \<open>__dfsan_last_label\<close>, \<open>__dfsan_label_info\<close>,
  \<open>__dfsan_record_index\<close>, \<open>__dfsan_arg_index\<close>, \<open>__branch_records\<close>,
  \<open>__func_arg_records\<close>, and the shadow memory, one label per shadow slot.  A slot
  is named by its index in the shadow region (\<open>shadow_for\<close> below).
\<close>

record dfsan_state =
  last_label :: dfsan_label
  label_info :: "dfsan_label \<Rightarrow> dfsan_label_info"
  record_index :: "64 word"
  arg_index :: "16 word"
  branch_records :: "nat \<Rightarrow> branch_record"
  func_arg_records :: "nat \<Rightarrow> func_arg_record"
  shadow :: "nat \<Rightarrow> dfsan_label"

text \<open>
  The flags read through \<open>flags()\<close>.  Their declarations (dfsan_flags.inc) are not among
  the sources, so the propagation functions take them as a parameter, together with the
  global \<open>gr_mode_perf\<close> (set once at start-up from the environment) and whether the
  runtime was compiled with \<open>NDEBUG\<close> (which removes \<open>assert\<close>; the repository's configure
  script builds with assertions enabled).
\<close>

record config =
  reuse_labels :: bool
  samples :: int
  gep_default :: bool
  select_default :: bool
  default_nan :: bool
  gr_mode_perf :: bool
  ndebug :: bool

definition kInitializingLabel :: dfsan_label where
  "kInitializingLabel = - 1"

definition kNumLabels :: nat where
  "kNumLabels = 2 ^ 16"

definition FUNC_ARGS_SIZE :: nat where
  "FUNC_ARGS_SIZE = 65535"

definition INT_MAX :: int where
  "INT_MAX = 2147483647"

text \<open>\<open>enum OpCode\<close>, the cases the propagation functions distinguish.\<close>

definition ADD :: nat where "ADD = 11"
definition FADD :: nat where "FADD = 12"
definition SUB :: nat where "SUB = 13"
definition FSUB :: nat where "FSUB = 14"
definition MUL :: nat where "MUL = 15"
definition FMUL :: nat where "FMUL = 16"
definition UDIV :: nat where "UDIV = 17"
definition SDIV :: nat where "SDIV = 18"
definition FDIV :: nat where "FDIV = 19"
definition UREM :: nat where "UREM = 20"
definition SREM :: nat where "SREM = 21"
definition FREM :: nat where "FREM = 22"
definition SHL :: nat where "SHL = 23"
definition LSHR :: nat where "LSHR = 24"
definition ASHR :: nat where "ASHR = 25"
definition AND :: nat where "AND = 26"
definition OR :: nat where "OR = 27"
definition XOR :: nat where "XOR = 28"
definition GETELEMENTPTRT :: nat where "GETELEMENTPTRT = 32"
definition SELECT :: nat where "SELECT = 55"

section \<open>Label table\<close>

text \<open>\<open>dfsan_check_label\<close>: "Checks we do not run out of labels."\<close>

definition dfsan_check_label :: "dfsan_label \<Rightarrow> error + unit" where
  "dfsan_check_label label =
     (if label = kInitializingLabel then Inl OutOfLabels else Inr ())"

text \<open>\<open>atomic_fetch_add(&__dfsan_last_label, 1, memory_order_relaxed)\<close>: the counter is
  incremented (a \<open>u16\<close>, so modulo \<open>2^16\<close>) and its old value returned.\<close>

definition fetch_add_last_label :: "dfsan_state \<Rightarrow> dfsan_state \<times> dfsan_label" where
  "fetch_add_last_label s = (s\<lparr>last_label := last_label s + 1\<rparr>, last_label s)"

definition dfsan_create_label :: "dfsan_state \<Rightarrow> string option \<Rightarrow> error + dfsan_state \<times> dfsan_label" where
  "dfsan_create_label s desc =
     (let (s1, old) = fetch_add_last_label s;
          label = old + 1
      in ebind (dfsan_check_label label) (\<lambda>_.
           Inr (s1\<lparr>label_info := (label_info s1)
                  (label := (label_info s1 label)
                     \<lparr>li_l1 := 0, li_l2 := 0, li_loc := desc,
                      li_neg_dydx := fone, li_pos_dydx := fone\<rparr>)\<rparr>,
                label)))"

definition dfsan_get_label_info :: "dfsan_state \<Rightarrow> dfsan_label \<Rightarrow> dfsan_label_info" where
  "dfsan_get_label_info s label = label_info s label"

definition dfsan_get_label_count :: "dfsan_state \<Rightarrow> nat" where
  "dfsan_get_label_count s = unat (last_label s)"

text \<open>
  \<open>dfsan_flush\<close> ("Used if you want to reset the shadow memory for in-process fuzzing"):
  the shadow region is unmapped and mapped again, which zeroes it, the three tables are
  zeroed and the three counters reset.  The mapping itself (\<open>MmapFixedNoReserve\<close>) is
  taken to succeed.
\<close>

definition dfsan_flush :: "dfsan_state \<Rightarrow> dfsan_state" where
  "dfsan_flush s =
     \<lparr>last_label = 0,
      label_info = (\<lambda>_. zero_label_info),
      record_index = 0,
      arg_index = 0,
      branch_records = (\<lambda>_. zero_branch_record),
      func_arg_records = (\<lambda>_. zero_func_arg_record),
      shadow = (\<lambda>_. 0)\<rparr>"

text \<open>The state after \<open>dfsan_init\<close>: zero-initialised globals, fresh shadow memory, and the
  location of the reserved label set.\<close>

definition dfsan_init :: dfsan_state where
  "dfsan_init =
     \<lparr>last_label = 0,
      label_info = (\<lambda>_. zero_label_info)
        (kInitializingLabel := zero_label_info\<lparr>li_loc := Some ''<init label>''\<rparr>),
      record_index = 0,
      arg_index = 0,
      branch_records = (\<lambda>_. zero_branch_record),
      func_arg_records = (\<lambda>_. zero_func_arg_record),
      shadow = (\<lambda>_. 0)\<rparr>"

text \<open>\<open>record_arg\<close>: one entry of the argument log; the log has \<open>FUNC_ARGS_SIZE\<close> entries
  and its index is a \<open>uint16_t\<close>.\<close>

definition record_arg ::
  "config \<Rightarrow> dfsan_state \<Rightarrow> 64 word \<Rightarrow> 32 word \<Rightarrow> 32 word \<Rightarrow> dfsan_label \<Rightarrow> fp \<Rightarrow> string option
     \<Rightarrow> error + dfsan_state" where
  "record_arg cfg s file_id inst_id arg_ind label v location =
     (if \<not> gr_mode_perf cfg then
        (let index = arg_index s;
             s1 = s\<lparr>arg_index := arg_index s + 1\<rparr>
         in if FUNC_ARGS_SIZE \<le> unat index then Inl OutOfFuncRecords
            else Inr (s1\<lparr>func_arg_records := (func_arg_records s1)
                       (unat index :=
                          \<lparr>fa_file_id = file_id, fa_inst_id = inst_id, fa_arg_ind = arg_ind,
                           fa_label = label, fa_v = v,
                           fa_ndx = li_neg_dydx (label_info s1 label),
                           fa_pdx = li_pos_dydx (label_info s1 label),
                           fa_loc = location\<rparr>)\<rparr>))
      else Inr s)"

section \<open>Derivative propagation\<close>

subsection \<open>Shared pieces of \<open>DFSAN_INT_UNION\<close> and \<open>DFSAN_FLOAT_UNION\<close>\<close>

text \<open>
  The type parameters of \<open>DFSAN_INT_UNION(FunctionName, Type, UnsignedDivType,
  SignedDivType, BitwiseType)\<close> and its four instantiations in dfsan.cc.
\<close>

record int_inst =
  Type :: cty
  UnsignedDivType :: cty
  SignedDivType :: cty
  BitwiseType :: cty

definition byte_inst :: int_inst where
  "byte_inst = \<lparr>Type = U8, UnsignedDivType = U8, SignedDivType = S8, BitwiseType = S8\<rparr>"

definition short_inst :: int_inst where
  "short_inst = \<lparr>Type = U16, UnsignedDivType = U16, SignedDivType = S16, BitwiseType = S16\<rparr>"

definition int_inst :: int_inst where
  "int_inst = \<lparr>Type = S32, UnsignedDivType = U32, SignedDivType = S32, BitwiseType = S64\<rparr>"

definition long_inst :: int_inst where
  "long_inst = \<lparr>Type = S64, UnsignedDivType = U64, SignedDivType = S64, BitwiseType = S64\<rparr>"

text \<open>The input derivatives \<open>(neg_dx1, neg_dx2, pos_dx1, pos_dx2)\<close>.\<close>

type_synonym derivs = "fp \<times> fp \<times> fp \<times> fp"

text \<open>
  The end of both macros: the next label is taken from the counter and checked, then
  its entry is written.  The integer macro also writes \<open>f_val\<close>; the floating-point
  macro and \<open>__dfsan_union_unsupported_type\<close> leave that field as it is.
\<close>

definition store_union_label ::
  "dfsan_state \<Rightarrow> dfsan_label \<Rightarrow> dfsan_label \<Rightarrow> dfsan_label \<Rightarrow> fp \<Rightarrow> fp \<Rightarrow> string option
     \<Rightarrow> int option \<Rightarrow> error + dfsan_state \<times> dfsan_label" where
  "store_union_label s l1 l2 opcode neg_dydx pos_dydx location f_val =
     (let (s1, old) = fetch_add_last_label s;
          label = old + 1
      in ebind (dfsan_check_label label) (\<lambda>_.
           Inr (s1\<lparr>label_info := (label_info s1)
                  (label := (label_info s1 label)
                     \<lparr>li_l1 := l1, li_l2 := l2, li_opcode := opcode,
                      li_neg_dydx := neg_dydx, li_pos_dydx := pos_dydx, li_loc := location,
                      li_f_val := (case f_val of None \<Rightarrow> li_f_val (label_info s1 label)
                                   | Some v \<Rightarrow> v)\<rparr>)\<rparr>,
                label)))"

text \<open>
  \<open>if (l2) { ...; if (!gr_mode_perf) record_arg(ret_addr, N, 0, l2, (float)x2, location); }\<close>
  at the head of the division and remainder cases; \<open>ret_addr\<close> is the caller's return
  address.
\<close>

definition record_divisor ::
  "config \<Rightarrow> dfsan_state \<Rightarrow> dfsan_label \<Rightarrow> 64 word \<Rightarrow> 32 word \<Rightarrow> fp \<Rightarrow> string option
     \<Rightarrow> error + dfsan_state" where
  "record_divisor cfg s l2 ret_addr inst_id v location =
     (if l2 \<noteq> 0 then
        (if \<not> gr_mode_perf cfg then record_arg cfg s ret_addr inst_id 0 l2 v location
         else Inr s)
      else Inr s)"

subsection \<open>The finite-difference samples of \<open>DFSAN_INT_UNION\<close>\<close>

text \<open>\<open>d > -0.00001 && d < 0.00001\<close>, compared as \<open>double\<close>s.\<close>

definition near_zero :: "fp \<Rightarrow> bool" where
  "near_zero d = (fgt d (fneg eps_lit) \<and> flt d eps_lit)"

text \<open>
  One perturbed output, for instance \<open>(x1 - T(k*neg_dx1)) | (x2 - T(k*neg_dx2))\<close>
  assigned to a variable of type \<open>T\<close>: \<open>pm\<close> is \<open>c_sub\<close> or \<open>c_add\<close>, \<open>opf\<close> the operator
  of the case, \<open>k\<close> the value of \<open>smp\<close> or \<open>offset\<close>.
\<close>

definition perturbed ::
  "cty \<Rightarrow> (cval \<Rightarrow> cval \<Rightarrow> error + cval) \<Rightarrow> (cval \<Rightarrow> cval \<Rightarrow> error + cval)
     \<Rightarrow> cval \<Rightarrow> cval \<Rightarrow> fp \<Rightarrow> fp \<Rightarrow> int \<Rightarrow> error + cval" where
  "perturbed T pm opf a1 a2 d1 d2 k =
     ebind (c_of_fp T (fmul binary32 (to_float k) d1)) (\<lambda>p1.
     ebind (pm a1 p1) (\<lambda>u1.
     ebind (c_of_fp T (fmul binary32 (to_float k) d2)) (\<lambda>p2.
     ebind (pm a2 p2) (\<lambda>u2.
     ebind (opf u1 u2) (\<lambda>r. Inr (conv T r))))))"

text \<open>
  The body of a sampling loop:
  \<^verbatim>\<open>neg_y = (x1 - T(k*neg_dx1)) op (x2 - T(k*neg_dx2));
neg_dydx = (neg_dydx > -0.00001 && neg_dydx < 0.00001) ? float(y - neg_y)/k : neg_dydx;
pos_y = (x1 + T(k*pos_dx1)) op (x2 + T(k*pos_dx2));
pos_dydx = (pos_dydx > -0.00001 && pos_dydx < 0.00001) ? float(pos_y - y)/k : pos_dydx;\<close>
\<close>

definition fd_sample ::
  "cty \<Rightarrow> (cval \<Rightarrow> cval \<Rightarrow> error + cval) \<Rightarrow> cval \<Rightarrow> cval \<Rightarrow> cval \<Rightarrow> derivs \<Rightarrow> int
     \<Rightarrow> fp \<times> fp \<Rightarrow> error + fp \<times> fp" where
  "fd_sample T opf a1 a2 y dx k acc =
     (case dx of (neg_dx1, neg_dx2, pos_dx1, pos_dx2) \<Rightarrow>
      case acc of (neg_dydx, pos_dydx) \<Rightarrow>
        ebind (perturbed T c_sub opf a1 a2 neg_dx1 neg_dx2 k) (\<lambda>neg_y.
        ebind (if near_zero neg_dydx
               then ebind (c_sub y neg_y) (\<lambda>d.
                      Inr (fdiv binary32 (to_float (snd d)) (to_float k)))
               else Inr neg_dydx) (\<lambda>neg_dydx'.
        ebind (perturbed T c_add opf a1 a2 pos_dx1 pos_dx2 k) (\<lambda>pos_y.
        ebind (if near_zero pos_dydx
               then ebind (c_sub pos_y y) (\<lambda>d.
                      Inr (fdiv binary32 (to_float (snd d)) (to_float k)))
               else Inr pos_dydx) (\<lambda>pos_dydx'.
        Inr (neg_dydx', pos_dydx'))))))"

text \<open>
  \<open>for (int smp=1; smp<=nsamples; smp++) body(smp)\<close>.  Incrementing \<open>smp\<close> beyond
  \<open>INT_MAX\<close> is undefined.
\<close>

function smp_loop ::
  "(int \<Rightarrow> 'a \<Rightarrow> error + 'a) \<Rightarrow> int \<Rightarrow> int \<Rightarrow> 'a \<Rightarrow> error + 'a" where
  "smp_loop body smp nsamples acc =
     (if smp \<le> nsamples then
        (case body smp acc of
           Inl e \<Rightarrow> Inl e
         | Inr acc' \<Rightarrow>
             if smp = INT_MAX then Inl UndefinedBehaviour
             else smp_loop body (smp + 1) nsamples acc')
      else Inr acc)"
  by pat_completeness auto
termination
  by (relation "measure (\<lambda>(body, smp, nsamples, acc). nat (nsamples + 1 - smp))") auto

declare smp_loop.simps [simp del]

text \<open>
  \<open>unsigned int offset = 1; for (int smp=1; smp<=nsamples; smp++) { body(offset);
  offset = offset<<1; }\<close>
\<close>

function offset_loop ::
  "(int \<Rightarrow> 'a \<Rightarrow> error + 'a) \<Rightarrow> int \<Rightarrow> int \<Rightarrow> int \<Rightarrow> 'a \<Rightarrow> error + 'a" where
  "offset_loop body smp nsamples offset acc =
     (if smp \<le> nsamples then
        (case body offset acc of
           Inl e \<Rightarrow> Inl e
         | Inr acc' \<Rightarrow>
             if smp = INT_MAX then Inl UndefinedBehaviour
             else offset_loop body (smp + 1) nsamples ((offset * 2) mod 2 ^ 32) acc')
      else Inr acc)"
  by pat_completeness auto
termination
  by (relation "measure (\<lambda>(body, smp, nsamples, offset, acc). nat (nsamples + 1 - smp))") auto

declare offset_loop.simps [simp del]

subsection \<open>The cases of the \<open>switch\<close> in \<open>DFSAN_INT_UNION\<close>\<close>

text \<open>
  Each case yields \<open>(neg_dydx, pos_dydx, f_val)\<close>.  The operands \<open>x1\<close> and \<open>x2\<close> have
  the type \<open>Type\<close>; \<open>f_val\<close> is an \<open>int\<close>, initially \<open>-1\<close>; the derivatives are initially 0.
\<close>

definition case_ADD :: "int_inst \<Rightarrow> int \<Rightarrow> int \<Rightarrow> derivs \<Rightarrow> error + fp \<times> fp \<times> int" where
  "case_ADD inst x1 x2 dx =
     (case dx of (neg_dx1, neg_dx2, pos_dx1, pos_dx2) \<Rightarrow>
        ebind (c_add (Type inst, x1) (Type inst, x2)) (\<lambda>r.
          Inr (fadd binary32 neg_dx1 neg_dx2, fadd binary32 pos_dx1 pos_dx2,
               ccast S32 (snd r))))"

definition case_SUB :: "int_inst \<Rightarrow> int \<Rightarrow> int \<Rightarrow> derivs \<Rightarrow> error + fp \<times> fp \<times> int" where
  "case_SUB inst x1 x2 dx =
     (case dx of (neg_dx1, neg_dx2, pos_dx1, pos_dx2) \<Rightarrow>
        ebind (c_sub (Type inst, x1) (Type inst, x2)) (\<lambda>r.
          Inr (fsub binary32 neg_dx1 neg_dx2, fsub binary32 pos_dx1 pos_dx2,
               ccast S32 (snd r))))"

definition case_MUL :: "int_inst \<Rightarrow> int \<Rightarrow> int \<Rightarrow> derivs \<Rightarrow> error + fp \<times> fp \<times> int" where
  "case_MUL inst x1 x2 dx =
     (case dx of (neg_dx1, neg_dx2, pos_dx1, pos_dx2) \<Rightarrow>
        ebind (c_mul (Type inst, x1) (Type inst, x2)) (\<lambda>r.
          Inr (fadd binary32 (fmul binary32 (to_float x1) neg_dx2)
                             (fmul binary32 (to_float x2) neg_dx1),
               fadd binary32 (fmul binary32 (to_float x1) pos_dx2)
                             (fmul binary32 (to_float x2) pos_dx1),
               ccast S32 (snd r))))"

text \<open>In the \<open>else\<close> branch of \<open>SDIV\<close> the derivatives are set to \<open>nanf("div 0")\<close> and
  \<open>assert(false)\<close> follows.\<close>

definition case_SDIV ::
  "int_inst \<Rightarrow> config \<Rightarrow> int \<Rightarrow> int \<Rightarrow> derivs \<Rightarrow> error + fp \<times> fp \<times> int" where
  "case_SDIV inst cfg x1 x2 dx =
     (case dx of (neg_dx1, neg_dx2, pos_dx1, pos_dx2) \<Rightarrow>
        if x2 \<noteq> 0 then
          ebind (c_div (Type inst, x1) (Type inst, x2)) (\<lambda>r.
            Inr (fdiv binary32
                   (fsub binary32 (fmul binary32 (to_float x2) neg_dx1)
                                  (fmul binary32 (to_float x1) neg_dx2))
                   (to_float x2),
                 fdiv binary32
                   (fsub binary32 (fmul binary32 (to_float x2) pos_dx1)
                                  (fmul binary32 (to_float x1) pos_dx2))
                   (to_float x2),
                 ccast S32 (snd r)))
        else if ndebug cfg then Inr (FNaN, FNaN, - 1)
        else Inl AssertionFailed)"

definition case_UREM ::
  "int_inst \<Rightarrow> config \<Rightarrow> int \<Rightarrow> int \<Rightarrow> derivs \<Rightarrow> error + fp \<times> fp \<times> int" where
  "case_UREM inst cfg x1 x2 dx =
     (let U = UnsignedDivType inst;
          ux1 = conv U (Type inst, x1);
          ux2 = conv U (Type inst, x2)
      in ebind (c_rem ux1 ux2) (\<lambda>r.
           let y = conv U r in
           ebind (smp_loop (fd_sample U c_rem ux1 ux2 y dx) 1 (samples cfg) (fzero, fzero))
             (\<lambda>(neg_dydx, pos_dydx). Inr (neg_dydx, pos_dydx, ccast S32 (snd y)))))"

definition case_SREM ::
  "int_inst \<Rightarrow> config \<Rightarrow> int \<Rightarrow> int \<Rightarrow> derivs \<Rightarrow> error + fp \<times> fp \<times> int" where
  "case_SREM inst cfg x1 x2 dx =
     (let S = SignedDivType inst;
          a1 = (Type inst, x1);
          a2 = (Type inst, x2)
      in ebind (c_rem a1 a2) (\<lambda>r.
           let y = conv S r in
           ebind (smp_loop (fd_sample S c_rem a1 a2 y dx) 1 (samples cfg) (fzero, fzero))
             (\<lambda>(neg_dydx, pos_dydx). Inr (neg_dydx, pos_dydx, ccast S32 (snd y)))))"

definition case_SHL ::
  "int_inst \<Rightarrow> config \<Rightarrow> int \<Rightarrow> int \<Rightarrow> derivs \<Rightarrow> error + fp \<times> fp \<times> int" where
  "case_SHL inst cfg x1 x2 dx =
     (let B = BitwiseType inst;
          a1 = (Type inst, x1);
          a2 = (Type inst, x2)
      in ebind (c_shl a1 a2) (\<lambda>r.
           let y = conv B r in
           ebind (smp_loop (fd_sample B c_shl a1 a2 y dx) 1 (samples cfg) (fzero, fzero))
             (\<lambda>(neg_dydx, pos_dydx). Inr (neg_dydx, pos_dydx, ccast S32 (snd y)))))"

definition case_LSHR ::
  "int_inst \<Rightarrow> config \<Rightarrow> int \<Rightarrow> int \<Rightarrow> derivs \<Rightarrow> error + fp \<times> fp \<times> int" where
  "case_LSHR inst cfg x1 x2 dx =
     (let U = UnsignedDivType inst;
          a1 = (Type inst, x1);
          a2 = (Type inst, x2)
      in ebind (c_shr a1 a2) (\<lambda>r.
           let y = conv U r in
           ebind (offset_loop (fd_sample U c_shr a1 a2 y dx) 1 (samples cfg) 1 (fzero, fzero))
             (\<lambda>(neg_dydx, pos_dydx). Inr (neg_dydx, pos_dydx, ccast S32 (snd y)))))"

definition case_ASHR ::
  "int_inst \<Rightarrow> config \<Rightarrow> int \<Rightarrow> int \<Rightarrow> derivs \<Rightarrow> error + fp \<times> fp \<times> int" where
  "case_ASHR inst cfg x1 x2 dx =
     (let B = BitwiseType inst;
          a1 = (Type inst, x1);
          a2 = (Type inst, x2)
      in ebind (c_shr a1 a2) (\<lambda>r.
           let y = conv B r in
           ebind (offset_loop (fd_sample B c_shr a1 a2 y dx) 1 (samples cfg) 1 (fzero, fzero))
             (\<lambda>(neg_dydx, pos_dydx). Inr (neg_dydx, pos_dydx, ccast S32 (snd y)))))"

definition case_AND ::
  "int_inst \<Rightarrow> config \<Rightarrow> int \<Rightarrow> int \<Rightarrow> derivs \<Rightarrow> error + fp \<times> fp \<times> int" where
  "case_AND inst cfg x1 x2 dx =
     (let B = BitwiseType inst;
          a1 = (Type inst, x1);
          a2 = (Type inst, x2)
      in ebind (c_and a1 a2) (\<lambda>r.
           let y = conv B r in
           ebind (offset_loop (fd_sample B c_and a1 a2 y dx) 1 (samples cfg) 1 (fzero, fzero))
             (\<lambda>(neg_dydx, pos_dydx). Inr (neg_dydx, pos_dydx, ccast S32 (snd y)))))"

definition case_OR ::
  "int_inst \<Rightarrow> config \<Rightarrow> int \<Rightarrow> int \<Rightarrow> derivs \<Rightarrow> error + fp \<times> fp \<times> int" where
  "case_OR inst cfg x1 x2 dx =
     (let B = BitwiseType inst;
          a1 = (Type inst, x1);
          a2 = (Type inst, x2)
      in ebind (c_or a1 a2) (\<lambda>r.
           let y = conv B r in
           ebind (smp_loop (fd_sample B c_or a1 a2 y dx) 1 (samples cfg) (fzero, fzero))
             (\<lambda>(neg_dydx, pos_dydx). Inr (neg_dydx, pos_dydx, ccast S32 (snd y)))))"

definition case_XOR ::
  "int_inst \<Rightarrow> config \<Rightarrow> int \<Rightarrow> int \<Rightarrow> derivs \<Rightarrow> error + fp \<times> fp \<times> int" where
  "case_XOR inst cfg x1 x2 dx =
     (let B = BitwiseType inst;
          a1 = (Type inst, x1);
          a2 = (Type inst, x2)
      in ebind (c_xor a1 a2) (\<lambda>r.
           let y = conv B r in
           ebind (smp_loop (fd_sample B c_xor a1 a2 y dx) 1 (samples cfg) (fzero, fzero))
             (\<lambda>(neg_dydx, pos_dydx). Inr (neg_dydx, pos_dydx, ccast S32 (snd y)))))"

definition case_GETELEMENTPTRT :: "config \<Rightarrow> fp \<times> fp \<times> int" where
  "case_GETELEMENTPTRT cfg = (if gep_default cfg then (fone, fone, - 1) else (fzero, fzero, - 1))"

definition case_SELECT :: "config \<Rightarrow> fp \<times> fp \<times> int" where
  "case_SELECT cfg = (if select_default cfg then (fone, fone, - 1) else (fzero, fzero, - 1))"

definition case_default :: "config \<Rightarrow> fp \<times> fp \<times> int" where
  "case_default cfg = (if default_nan cfg then (FNaN, FNaN, - 1) else (fzero, fzero, - 1))"

text \<open>The \<open>switch (opcode)\<close>.  Only the division and remainder cases touch the state
  (the argument log).\<close>

definition int_switch ::
  "int_inst \<Rightarrow> config \<Rightarrow> dfsan_state \<Rightarrow> dfsan_label \<Rightarrow> int \<Rightarrow> int \<Rightarrow> 64 word \<Rightarrow> 16 word
     \<Rightarrow> string option \<Rightarrow> derivs \<Rightarrow> error + dfsan_state \<times> fp \<times> fp \<times> int" where
  "int_switch inst cfg s l2 x1 x2 ret_addr opcode location dx =
     (let op = unat opcode in
      if op = ADD then ebind (case_ADD inst x1 x2 dx) (\<lambda>r. Inr (s, r))
      else if op = SUB then ebind (case_SUB inst x1 x2 dx) (\<lambda>r. Inr (s, r))
      else if op = MUL then ebind (case_MUL inst x1 x2 dx) (\<lambda>r. Inr (s, r))
      else if op = SDIV then
        ebind (record_divisor cfg s l2 ret_addr 18 (to_float x2) location) (\<lambda>s1.
        ebind (case_SDIV inst cfg x1 x2 dx) (\<lambda>r. Inr (s1, r)))
      else if op = UREM then
        ebind (record_divisor cfg s l2 ret_addr 20 (to_float x2) location) (\<lambda>s1.
        ebind (case_UREM inst cfg x1 x2 dx) (\<lambda>r. Inr (s1, r)))
      else if op = SREM then
        ebind (record_divisor cfg s l2 ret_addr 21 (to_float x2) location) (\<lambda>s1.
        ebind (case_SREM inst cfg x1 x2 dx) (\<lambda>r. Inr (s1, r)))
      else if op = SHL then ebind (case_SHL inst cfg x1 x2 dx) (\<lambda>r. Inr (s, r))
      else if op = LSHR then ebind (case_LSHR inst cfg x1 x2 dx) (\<lambda>r. Inr (s, r))
      else if op = ASHR then ebind (case_ASHR inst cfg x1 x2 dx) (\<lambda>r. Inr (s, r))
      else if op = AND then ebind (case_AND inst cfg x1 x2 dx) (\<lambda>r. Inr (s, r))
      else if op = OR then ebind (case_OR inst cfg x1 x2 dx) (\<lambda>r. Inr (s, r))
      else if op = XOR then ebind (case_XOR inst cfg x1 x2 dx) (\<lambda>r. Inr (s, r))
      else if op = GETELEMENTPTRT then Inr (s, case_GETELEMENTPTRT cfg)
      else if op = SELECT then Inr (s, case_SELECT cfg)
      else Inr (s, case_default cfg))"

subsection \<open>\<open>DFSAN_INT_UNION\<close>\<close>

text \<open>
  The function the macro defines, for all four instantiations.  The look-up
  \<open>opcodeNames[opcode]\<close> and the variable \<open>supported\<close> feed only the \<open>if (DEBUG)\<close>
  printing, and \<open>DEBUG\<close> is \<open>false\<close>; \<open>insnID\<close> is used there only, too.
\<close>

text \<open>
  \<^verbatim>\<open>float neg_dx1 = 0, ...;
if (l1 != 0) { neg_dx1 = __dfsan_label_info[l1].neg_dydx; pos_dx1 = ...pos_dydx; }\<close>
  and the same for \<open>l2\<close>: an input label 0 contributes the derivative 0.
\<close>

definition neg_dx :: "dfsan_state \<Rightarrow> dfsan_label \<Rightarrow> fp" where
  "neg_dx s l = (if l \<noteq> 0 then li_neg_dydx (label_info s l) else fzero)"

definition pos_dx :: "dfsan_state \<Rightarrow> dfsan_label \<Rightarrow> fp" where
  "pos_dx s l = (if l \<noteq> 0 then li_pos_dydx (label_info s l) else fzero)"

definition input_derivs :: "dfsan_state \<Rightarrow> dfsan_label \<Rightarrow> dfsan_label \<Rightarrow> derivs" where
  "input_derivs s l1 l2 = (neg_dx s l1, neg_dx s l2, pos_dx s l1, pos_dx s l2)"

definition dfsan_int_union ::
  "int_inst \<Rightarrow> config \<Rightarrow> dfsan_state \<Rightarrow> dfsan_label \<Rightarrow> dfsan_label \<Rightarrow> int \<Rightarrow> int \<Rightarrow> 64 word
     \<Rightarrow> 16 word \<Rightarrow> string option \<Rightarrow> error + dfsan_state \<times> dfsan_label" where
  "dfsan_int_union inst cfg s l1 l2 x1 x2 ret_addr opcode location =
     (if l1 = 0 \<and> l2 = 0 then Inr (s, 0)
      else
        case input_derivs s l1 l2 of (neg_dx1, neg_dx2, pos_dx1, pos_dx2) \<Rightarrow>
        if reuse_labels cfg \<and> feq neg_dx1 fzero \<and> feq pos_dx1 fzero
             \<and> feq neg_dx2 fzero \<and> feq pos_dx2 fzero
        then Inr (s, if l1 \<noteq> 0 then l1 else l2)
        else
          ebind (int_switch inst cfg s l2 x1 x2 ret_addr opcode location
                   (neg_dx1, neg_dx2, pos_dx1, pos_dx2))
            (\<lambda>(s1, neg_dydx, pos_dydx, f_val).
               if reuse_labels cfg \<and> l1 \<noteq> 0 \<and> feq pos_dydx pos_dx1 \<and> feq neg_dydx neg_dx1
               then Inr (s1, l1)
               else if reuse_labels cfg \<and> l2 \<noteq> 0 \<and> feq pos_dydx pos_dx2
                         \<and> feq neg_dydx neg_dx2
               then Inr (s1, l2)
               else store_union_label s1 l1 l2 opcode neg_dydx pos_dydx location
                      (Some f_val)))"

text \<open>The four instantiations, with their operand types.\<close>

definition dfsan_union_byte ::
  "config \<Rightarrow> dfsan_state \<Rightarrow> dfsan_label \<Rightarrow> dfsan_label \<Rightarrow> 8 word \<Rightarrow> 8 word \<Rightarrow> 64 word
     \<Rightarrow> 16 word \<Rightarrow> string option \<Rightarrow> error + dfsan_state \<times> dfsan_label" where
  "dfsan_union_byte cfg s l1 l2 x1 x2 =
     dfsan_int_union byte_inst cfg s l1 l2 (uint x1) (uint x2)"

definition dfsan_union_short ::
  "config \<Rightarrow> dfsan_state \<Rightarrow> dfsan_label \<Rightarrow> dfsan_label \<Rightarrow> 16 word \<Rightarrow> 16 word \<Rightarrow> 64 word
     \<Rightarrow> 16 word \<Rightarrow> string option \<Rightarrow> error + dfsan_state \<times> dfsan_label" where
  "dfsan_union_short cfg s l1 l2 x1 x2 =
     dfsan_int_union short_inst cfg s l1 l2 (uint x1) (uint x2)"

definition dfsan_union ::
  "config \<Rightarrow> dfsan_state \<Rightarrow> dfsan_label \<Rightarrow> dfsan_label \<Rightarrow> 32 word \<Rightarrow> 32 word \<Rightarrow> 64 word
     \<Rightarrow> 16 word \<Rightarrow> string option \<Rightarrow> error + dfsan_state \<times> dfsan_label" where
  "dfsan_union cfg s l1 l2 x1 x2 =
     dfsan_int_union int_inst cfg s l1 l2 (sint x1) (sint x2)"

definition dfsan_union_long ::
  "config \<Rightarrow> dfsan_state \<Rightarrow> dfsan_label \<Rightarrow> dfsan_label \<Rightarrow> 64 word \<Rightarrow> 64 word \<Rightarrow> 64 word
     \<Rightarrow> 16 word \<Rightarrow> string option \<Rightarrow> error + dfsan_state \<times> dfsan_label" where
  "dfsan_union_long cfg s l1 l2 x1 x2 =
     dfsan_int_union long_inst cfg s l1 l2 (sint x1) (sint x2)"

subsection \<open>\<open>DFSAN_FLOAT_UNION\<close>\<close>

text \<open>
  \<open>T\<close> is the format of \<open>Type\<close> (\<open>float\<close> or \<open>double\<close>).  An expression that mixes a
  \<open>Type\<close> operand with a \<open>float\<close> derivative is evaluated in \<open>T\<close> and converted to \<open>float\<close>
  when it is assigned to \<open>neg_dydx\<close> or \<open>pos_dydx\<close>.  Here \<open>opcode\<close> is a \<open>uptr\<close>; it is
  truncated when stored in the \<open>u16\<close> field.
\<close>

definition float_switch ::
  "fmt \<Rightarrow> config \<Rightarrow> dfsan_state \<Rightarrow> dfsan_label \<Rightarrow> fp \<Rightarrow> fp \<Rightarrow> 64 word \<Rightarrow> 64 word
     \<Rightarrow> string option \<Rightarrow> derivs \<Rightarrow> error + dfsan_state \<times> fp \<times> fp" where
  "float_switch T cfg s l2 x1 x2 ret_addr opcode location dx =
     (case dx of (neg_dx1, neg_dx2, pos_dx1, pos_dx2) \<Rightarrow>
      let op = unat opcode in
      if op = FADD then
        Inr (s, fadd binary32 neg_dx1 neg_dx2, fadd binary32 pos_dx1 pos_dx2)
      else if op = FSUB then
        Inr (s, fsub binary32 neg_dx1 neg_dx2, fsub binary32 pos_dx1 pos_dx2)
      else if op = FMUL then
        Inr (s,
          fcvt binary32 (fadd T (fmul T x1 (fcvt T neg_dx2)) (fmul T x2 (fcvt T neg_dx1))),
          fcvt binary32 (fadd T (fmul T x1 (fcvt T pos_dx2)) (fmul T x2 (fcvt T pos_dx1))))
      else if op = FDIV then
        ebind (record_divisor cfg s l2 ret_addr 19 (fcvt binary32 x2) location) (\<lambda>s1.
          if fne x2 fzero then
            Inr (s1,
              fcvt binary32
                (fdiv T (fsub T (fmul T x2 (fcvt T neg_dx1)) (fmul T x1 (fcvt T neg_dx2))) x2),
              fcvt binary32
                (fdiv T (fsub T (fmul T x2 (fcvt T pos_dx1)) (fmul T x1 (fcvt T pos_dx2))) x2))
          else Inr (s1, FNaN, FNaN))
      else if op = FREM then
        ebind (record_divisor cfg s l2 ret_addr 22 (fcvt binary32 x2) location) (\<lambda>s1.
          let y = fmod T x1 x2;
              neg_y = fmod T (fsub T x1 (fcvt T neg_dx1)) (fsub T x2 (fcvt T neg_dx2));
              pos_y = fmod T (fadd T x1 (fcvt T pos_dx1)) (fadd T x2 (fcvt T pos_dx2))
          in Inr (s1, fcvt binary32 (fsub T y neg_y), fcvt binary32 (fsub T pos_y y)))
      else if default_nan cfg then Inr (s, FNaN, FNaN)
      else Inr (s, fzero, fzero))"

definition dfsan_float_union ::
  "fmt \<Rightarrow> config \<Rightarrow> dfsan_state \<Rightarrow> dfsan_label \<Rightarrow> dfsan_label \<Rightarrow> fp \<Rightarrow> fp \<Rightarrow> 64 word
     \<Rightarrow> 64 word \<Rightarrow> string option \<Rightarrow> error + dfsan_state \<times> dfsan_label" where
  "dfsan_float_union T cfg s l1 l2 x1 x2 ret_addr opcode location =
     (if l1 = 0 \<and> l2 = 0 then Inr (s, 0)
      else
        case input_derivs s l1 l2 of (neg_dx1, neg_dx2, pos_dx1, pos_dx2) \<Rightarrow>
        if reuse_labels cfg \<and> feq neg_dx1 fzero \<and> feq pos_dx1 fzero
             \<and> feq neg_dx2 fzero \<and> feq pos_dx2 fzero
        then Inr (s, if l1 \<noteq> 0 then l1 else l2)
        else
          ebind (float_switch T cfg s l2 x1 x2 ret_addr opcode location
                   (neg_dx1, neg_dx2, pos_dx1, pos_dx2))
            (\<lambda>(s1, neg_dydx, pos_dydx).
               if reuse_labels cfg \<and> l1 \<noteq> 0 \<and> feq pos_dydx pos_dx1 \<and> feq neg_dydx neg_dx1
               then Inr (s1, l1)
               else if reuse_labels cfg \<and> l2 \<noteq> 0 \<and> feq pos_dydx pos_dx2
                         \<and> feq neg_dydx neg_dx2
               then Inr (s1, l2)
               else store_union_label s1 l1 l2 (ucast opcode) neg_dydx pos_dydx location
                      None))"

definition dfsan_union_float ::
  "config \<Rightarrow> dfsan_state \<Rightarrow> dfsan_label \<Rightarrow> dfsan_label \<Rightarrow> fp \<Rightarrow> fp \<Rightarrow> 64 word
     \<Rightarrow> 64 word \<Rightarrow> string option \<Rightarrow> error + dfsan_state \<times> dfsan_label" where
  "dfsan_union_float = dfsan_float_union binary32"

definition dfsan_union_double ::
  "config \<Rightarrow> dfsan_state \<Rightarrow> dfsan_label \<Rightarrow> dfsan_label \<Rightarrow> fp \<Rightarrow> fp \<Rightarrow> 64 word
     \<Rightarrow> 64 word \<Rightarrow> string option \<Rightarrow> error + dfsan_state \<times> dfsan_label" where
  "dfsan_union_double = dfsan_float_union binary64"

subsection \<open>\<open>__dfsan_union_unsupported_type\<close>\<close>

definition dfsan_union_unsupported_type ::
  "dfsan_state \<Rightarrow> dfsan_label \<Rightarrow> dfsan_label \<Rightarrow> 16 word \<Rightarrow> string option
     \<Rightarrow> error + dfsan_state \<times> dfsan_label" where
  "dfsan_union_unsupported_type s l1 l2 opcode location =
     (if l1 = 0 \<and> l2 = 0 then Inr (s, 0)
      else store_union_label s l1 l2 opcode FNaN FNaN location None)"

section \<open>Shadow memory\<close>

text \<open>
  \<open>shadow_for(ptr)\<close> is \<open>(dfsan_label *) ((ptr & ShadowMask()) << 1)\<close>: the label of the
  byte at \<open>ptr\<close> is the slot number \<open>ptr & ShadowMask()\<close> of the shadow region, and
  \<open>++labelp\<close> is the next slot.  \<open>ShadowMask()\<close> (dfsan_platform.h) is not among the
  sources and is a parameter.
\<close>

definition shadow_for :: "64 word \<Rightarrow> 64 word \<Rightarrow> nat" where
  "shadow_for smask ptr = unat (and ptr smask)"

text \<open>
  \<open>__dfsan_set_label\<close>:
  \<^verbatim>\<open>for (dfsan_label *labelp = shadow_for(addr); size != 0; --size, ++labelp) {
  if (label == *labelp) continue;
  *labelp = label;
}\<close>
\<close>

fun set_label_loop :: "dfsan_label \<Rightarrow> nat \<Rightarrow> nat \<Rightarrow> (nat \<Rightarrow> dfsan_label) \<Rightarrow> (nat \<Rightarrow> dfsan_label)" where
  "set_label_loop label labelp 0 sh = sh"
| "set_label_loop label labelp (Suc sz) sh =
     set_label_loop label (Suc labelp) sz
       (if label = sh labelp then sh else sh(labelp := label))"

definition uu_dfsan_set_label ::
  "64 word \<Rightarrow> dfsan_state \<Rightarrow> dfsan_label \<Rightarrow> 64 word \<Rightarrow> 64 word \<Rightarrow> dfsan_state" where
  "uu_dfsan_set_label smask s label addr sz =
     s\<lparr>shadow := set_label_loop label (shadow_for smask addr) (unat sz) (shadow s)\<rparr>"

definition dfsan_set_label ::
  "64 word \<Rightarrow> dfsan_state \<Rightarrow> dfsan_label \<Rightarrow> 64 word \<Rightarrow> 64 word \<Rightarrow> dfsan_state" where
  "dfsan_set_label smask s label addr sz = uu_dfsan_set_label smask s label addr sz"

text \<open>
  \<open>__dfsan_union_load(ls, n)\<close>: the loop \<open>for (uptr i = 1; i != n; ++i)\<close> over the slots
  \<open>ls[i]\<close>.  When a slot differs from the label so far, the function reports an error,
  calls \<open>__dfsan_union(label, next_label, 0, 0, 0, 0, 0)\<close> and then \<open>Die()\<close>.
\<close>

function union_load_loop ::
  "config \<Rightarrow> dfsan_state \<Rightarrow> nat \<Rightarrow> 64 word \<Rightarrow> 64 word \<Rightarrow> dfsan_label \<Rightarrow> error + dfsan_label" where
  "union_load_loop cfg s ls n i label =
     (if i \<noteq> n then
        (let next_label = shadow s (ls + unat i) in
         if label \<noteq> next_label then
           (case dfsan_union cfg s label next_label 0 0 0 0 None of
              Inl e \<Rightarrow> Inl e
            | Inr r \<Rightarrow> Inl NonInstrumentedUnion)
         else union_load_loop cfg s ls n (i + 1) label)
      else Inr label)"
  by pat_completeness auto
termination
proof (relation "measure (\<lambda>(cfg, s, ls, n, i, label). unat (n - i))")
  show "wf (measure (\<lambda>(cfg, s, ls, n, i, label). unat (n - i)))"
    by simp
next
  fix cfg :: config and s :: dfsan_state and ls :: nat and n i :: "64 word"
    and label next_label :: dfsan_label
  assume "i \<noteq> n"
  then have nz: "n - i \<noteq> 0"
    by simp
  have e: "n - (i + 1) = (n - i) - 1"
    by simp
  from nz have "unat ((n - i) - 1) < unat (n - i)"
    by (simp add: unat_minus_one unat_gt_0)
  then have "unat (n - (i + 1)) < unat (n - i)"
    by (simp only: e)
  then show "((cfg, s, ls, n, i + 1, label), (cfg, s, ls, n, i, label))
      \<in> measure (\<lambda>(cfg, s, ls, n, i, label). unat (n - i))"
    by simp
qed

declare union_load_loop.simps [simp del]

definition dfsan_union_load ::
  "config \<Rightarrow> dfsan_state \<Rightarrow> nat \<Rightarrow> 64 word \<Rightarrow> error + dfsan_label" where
  "dfsan_union_load cfg s ls n = union_load_loop cfg s ls n 1 (shadow s ls)"

definition dfsan_read_label ::
  "config \<Rightarrow> 64 word \<Rightarrow> dfsan_state \<Rightarrow> 64 word \<Rightarrow> 64 word \<Rightarrow> error + dfsan_label" where
  "dfsan_read_label cfg smask s addr sz =
     (if sz = 0 then Inr 0 else dfsan_union_load cfg s (shadow_for smask addr) sz)"

section \<open>Provenance\<close>

text \<open>
  \<open>dfsan_has_label\<close>:
  \<^verbatim>\<open>if (label == elem) return true;
const dfsan_label_info *info = dfsan_get_label_info(label);
if (info->l1 != 0) {
  return dfsan_has_label(info->l1, elem) || dfsan_has_label(info->l2, elem);
} else {
  return false;
}\<close>
  The recursion follows the table, so the model bounds its depth: \<open>None\<close> when the
  bound is reached.
\<close>

fun dfsan_has_label :: "nat \<Rightarrow> dfsan_state \<Rightarrow> dfsan_label \<Rightarrow> dfsan_label \<Rightarrow> bool option" where
  "dfsan_has_label 0 s label elem = None"
| "dfsan_has_label (Suc fuel) s label elem =
     (if label = elem then Some True
      else
        let info = dfsan_get_label_info s label in
        if li_l1 info \<noteq> 0 then
          (case dfsan_has_label fuel s (li_l1 info) elem of
             None \<Rightarrow> None
           | Some True \<Rightarrow> Some True
           | Some False \<Rightarrow> dfsan_has_label fuel s (li_l2 info) elem)
        else Some False)"

section \<open>Notions used in the statements\<close>

subsection \<open>Effects on the label table\<close>

text \<open>
  \<open>kept s s'\<close>: the label counter, the label table and shadow memory are the same in
  both states.  \<open>added s s' l l1 l2\<close>: \<open>s'\<close> has exactly one more label than \<open>s\<close>, the label
  \<open>l\<close>, with parents \<open>l1\<close> and \<open>l2\<close>, and no other entry of the table differs.
\<close>

definition kept :: "dfsan_state \<Rightarrow> dfsan_state \<Rightarrow> bool" where
  "kept s s' = (last_label s' = last_label s \<and> label_info s' = label_info s \<and> shadow s' = shadow s)"

definition added ::
  "dfsan_state \<Rightarrow> dfsan_state \<Rightarrow> dfsan_label \<Rightarrow> dfsan_label \<Rightarrow> dfsan_label \<Rightarrow> bool" where
  "added s s' l l1 l2 =
     (l = last_label s + 1 \<and> l \<noteq> kInitializingLabel \<and> last_label s' = l
      \<and> shadow s' = shadow s
      \<and> (\<forall>k. k \<noteq> l \<longrightarrow> label_info s' k = label_info s k)
      \<and> li_l1 (label_info s' l) = l1 \<and> li_l2 (label_info s' l) = l2)"

subsection \<open>Provenance graph and reachable states\<close>

text \<open>
  A state is reachable when it arises from the initial state by resets
  (\<open>dfsan_flush\<close>), label creation, shadow writes and successful propagation calls whose
  operand labels have been handed out by the table (they are at most \<open>last_label\<close>; 0 is
  the untainted label).  The flags are fixed for a run.
\<close>

inductive reachable :: "config \<Rightarrow> dfsan_state \<Rightarrow> bool" for cfg :: config where
  reach_init: "reachable cfg dfsan_init"
| reach_flush: "reachable cfg s \<Longrightarrow> reachable cfg (dfsan_flush s)"
| reach_create:
    "reachable cfg s \<Longrightarrow> dfsan_create_label s desc = Inr (s', l) \<Longrightarrow> reachable cfg s'"
| reach_int_union:
    "reachable cfg s \<Longrightarrow> l1 \<le> last_label s \<Longrightarrow> l2 \<le> last_label s \<Longrightarrow>
     dfsan_int_union inst cfg s l1 l2 x1 x2 ret_addr opcode location = Inr (s', l) \<Longrightarrow>
     reachable cfg s'"
| reach_float_union:
    "reachable cfg s \<Longrightarrow> l1 \<le> last_label s \<Longrightarrow> l2 \<le> last_label s \<Longrightarrow>
     dfsan_float_union T cfg s l1 l2 y1 y2 ret_addr fopcode location = Inr (s', l) \<Longrightarrow>
     reachable cfg s'"
| reach_unsupported:
    "reachable cfg s \<Longrightarrow> l1 \<le> last_label s \<Longrightarrow> l2 \<le> last_label s \<Longrightarrow>
     dfsan_union_unsupported_type s l1 l2 opcode location = Inr (s', l) \<Longrightarrow>
     reachable cfg s'"
| reach_set_label:
    "reachable cfg s \<Longrightarrow> reachable cfg (dfsan_set_label smask s label addr sz)"

definition parent_rel :: "dfsan_state \<Rightarrow> (dfsan_label \<times> dfsan_label) set" where
  "parent_rel s =
     {(p, l). 0 < l \<and> l \<le> last_label s
              \<and> (p = li_l1 (label_info s l) \<or> p = li_l2 (label_info s l))}"

definition dag_inv :: "dfsan_state \<Rightarrow> bool" where
  "dag_inv s =
     (last_label s \<noteq> kInitializingLabel
      \<and> (\<forall>l. 0 < l \<and> l \<le> last_label s \<longrightarrow>
             li_l1 (label_info s l) < l \<and> li_l2 (label_info s l) < l))"

subsection \<open>Values of derivatives\<close>

text \<open>Two derivatives are the same value when C's \<open>==\<close> holds of them or both are NaN.\<close>

definition same_value :: "fp \<Rightarrow> fp \<Rightarrow> bool" where
  "same_value a b = (feq a b \<or> (is_nan a \<and> is_nan b))"

text \<open>
  \<open>propagated cfg s s' l nd pd fv\<close>: what a successful propagation call from \<open>s\<close> to \<open>s'\<close>
  with result label \<open>l\<close> did when its rule computed the derivatives \<open>(nd, pd)\<close> and the
  concrete value \<open>fv\<close>.  The derivatives of \<open>l\<close> are \<open>nd\<close> and \<open>pd\<close> as values; when a
  label was allocated (the counter moved), \<open>l\<close> is that label and its entry holds
  exactly \<open>nd\<close>, \<open>pd\<close> and \<open>fv\<close>; and with label reuse off a label is always allocated.
\<close>

definition propagated ::
  "config \<Rightarrow> dfsan_state \<Rightarrow> dfsan_state \<Rightarrow> dfsan_label \<Rightarrow> fp \<Rightarrow> fp \<Rightarrow> int \<Rightarrow> bool" where
  "propagated cfg s s' l nd pd fv =
     (same_value (li_neg_dydx (label_info s' l)) nd
      \<and> same_value (li_pos_dydx (label_info s' l)) pd
      \<and> (last_label s' \<noteq> last_label s \<longrightarrow>
           l = last_label s + 1 \<and> last_label s' = l
           \<and> li_neg_dydx (label_info s' l) = nd \<and> li_pos_dydx (label_info s' l) = pd
           \<and> li_f_val (label_info s' l) = fv)
      \<and> (\<not> reuse_labels cfg \<longrightarrow> last_label s' \<noteq> last_label s))"

subsection \<open>Example states\<close>

text \<open>
  The states of the repository's example program (\<open>x\<close> labelled, \<open>y = 4 * x\<close>), and of two
  labelled bytes and their sums, under a configuration with label reuse on and three
  samples.
\<close>

definition example_cfg :: config where
  "example_cfg =
     \<lparr>reuse_labels = True, samples = 3, gep_default = False, select_default = False,
      default_nan = False, gr_mode_perf = False, ndebug = False\<rparr>"

definition with_label :: "dfsan_state \<Rightarrow> dfsan_label \<Rightarrow> dfsan_label_info \<Rightarrow> dfsan_state" where
  "with_label s l info = s\<lparr>last_label := l, label_info := (label_info s)(l := info)\<rparr>"

definition unit_info :: "string \<Rightarrow> dfsan_label_info" where
  "unit_info desc =
     \<lparr>li_l1 = 0, li_l2 = 0, li_loc = Some desc, li_neg_dydx = fone, li_pos_dydx = fone,
      li_opcode = 0, li_f_val = 0\<rparr>"

definition st_x :: dfsan_state where
  "st_x = with_label (dfsan_flush dfsan_init) 1 (unit_info ''x'')"

definition st_y :: dfsan_state where
  "st_y = with_label st_x 2
     \<lparr>li_l1 = 0, li_l2 = 1, li_loc = None, li_neg_dydx = to_float 4, li_pos_dydx = to_float 4,
      li_opcode = 15, li_f_val = 4\<rparr>"

definition st_x2 :: dfsan_state where
  "st_x2 = with_label st_x 2 (unit_info ''x2'')"

definition st_sum :: dfsan_state where
  "st_sum = with_label st_x2 3
     \<lparr>li_l1 = 1, li_l2 = 2, li_loc = None, li_neg_dydx = to_float 2, li_pos_dydx = to_float 2,
      li_opcode = 11, li_f_val = 2\<rparr>"

definition st_sum3 :: dfsan_state where
  "st_sum3 = with_label st_sum 4
     \<lparr>li_l1 = 1, li_l2 = 3, li_loc = None, li_neg_dydx = to_float 3, li_pos_dydx = to_float 3,
      li_opcode = 11, li_f_val = 3\<rparr>"

definition st_mul :: dfsan_state where
  "st_mul = with_label st_x 2
     \<lparr>li_l1 = 1, li_l2 = 0, li_loc = None, li_neg_dydx = to_float 4, li_pos_dydx = to_float 4,
      li_opcode = 15, li_f_val = 4\<rparr>"

subsection \<open>Sequences of allocations\<close>

text \<open>
  A label is allocated by \<open>dfsan_create_label\<close> or by the end of a propagation function
  (\<open>store_union_label\<close>, with the parents, opcode, derivatives, location and value it
  records).  \<open>allocate_all\<close> performs a list of allocations in order and stops at the
  first fatal error.
\<close>

datatype alloc_request =
    ByCreate "string option"
  | ByCombine dfsan_label dfsan_label dfsan_label fp fp "string option" "int option"

fun allocate :: "dfsan_state \<Rightarrow> alloc_request \<Rightarrow> error + dfsan_state \<times> dfsan_label" where
  "allocate s (ByCreate desc) = dfsan_create_label s desc"
| "allocate s (ByCombine l1 l2 opcode neg_dydx pos_dydx location f_val) =
     store_union_label s l1 l2 opcode neg_dydx pos_dydx location f_val"

fun allocate_all :: "dfsan_state \<Rightarrow> alloc_request list \<Rightarrow> error + dfsan_state" where
  "allocate_all s [] = Inr s"
| "allocate_all s (r # rs) =
     (case allocate s r of Inl e \<Rightarrow> Inl e | Inr (s', l) \<Rightarrow> allocate_all s' rs)"


subsection \<open>States and configurations for division\<close>

text \<open>The label of \<open>x - x\<close>, whose derivatives are zero; and a configuration of a build
  with \<open>NDEBUG\<close>.\<close>

definition st_diff :: dfsan_state where
  "st_diff = with_label st_x 2
     \<lparr>li_l1 = 1, li_l2 = 1, li_loc = None, li_neg_dydx = fzero, li_pos_dydx = fzero,
      li_opcode = 13, li_f_val = 0\<rparr>"

definition release_cfg :: config where
  "release_cfg = example_cfg\<lparr>ndebug := True\<rparr>"

subsection \<open>Shadow memory with labels\<close>

text \<open>Four slots from address 100 on hold label 2; and the slots at 100 and 101 hold the
  labels 1 and 2.\<close>

definition st_uniform :: dfsan_state where
  "st_uniform = dfsan_set_label (- 1) st_x2 2 100 4"

definition st_mixed :: dfsan_state where
  "st_mixed = dfsan_set_label (- 1) (dfsan_set_label (- 1) st_x2 1 100 1) 2 101 1"

subsection \<open>Sampling at a given sequence of offsets\<close>







subsection \<open>An operand label that was never handed out\<close>

text \<open>The state after \<open>x\<close> (label 1) is multiplied with an operand that carries the
  label 7, which the table has not allocated.\<close>

definition st_wild :: dfsan_state where
  "st_wild = with_label st_x 2
     \<lparr>li_l1 = 1, li_l2 = 7, li_loc = None, li_neg_dydx = to_float 3,
      li_pos_dydx = to_float 3, li_opcode = 15, li_f_val = 9\<rparr>"

subsection \<open>A sampled shift\<close>


section \<open>Auxiliary facts\<close>

subsection \<open>Errors and frames\<close>

lemma ebind_eq_Inr: "ebind m k = Inr y \<longleftrightarrow> (\<exists>x. m = Inr x \<and> k x = Inr y)"
  by (cases m) auto

lemma record_arg_frame:
  "record_arg cfg s file_id inst_id arg_ind label v location = Inr s1 \<Longrightarrow>
     last_label s1 = last_label s \<and> label_info s1 = label_info s \<and> shadow s1 = shadow s"
  by (auto simp: record_arg_def Let_def split: if_splits)

lemma record_divisor_frame:
  "record_divisor cfg s l2 ret_addr inst_id v location = Inr s1 \<Longrightarrow>
     last_label s1 = last_label s \<and> label_info s1 = label_info s \<and> shadow s1 = shadow s"
  by (auto simp: record_divisor_def split: if_splits dest: record_arg_frame)

lemma int_switch_frame:
  "int_switch inst cfg s l2 x1 x2 ret_addr opcode location dx = Inr (s1, r) \<Longrightarrow>
     last_label s1 = last_label s \<and> label_info s1 = label_info s \<and> shadow s1 = shadow s"
  by (auto simp: int_switch_def Let_def ebind_eq_Inr split: if_splits
      dest: record_divisor_frame)

lemma float_switch_frame:
  "float_switch T cfg s l2 x1 x2 ret_addr opcode location dx = Inr (s1, r) \<Longrightarrow>
     last_label s1 = last_label s \<and> label_info s1 = label_info s \<and> shadow s1 = shadow s"
  by (auto simp: float_switch_def Let_def ebind_eq_Inr split: if_splits prod.splits
      dest: record_divisor_frame)

lemma store_union_label_eq:
  "store_union_label s l1 l2 opcode nd pd location fv =
     (if last_label s + 1 = kInitializingLabel then Inl OutOfLabels
      else Inr (s\<lparr>last_label := last_label s + 1,
                  label_info := (label_info s)
                    (last_label s + 1 := (label_info s (last_label s + 1))
                       \<lparr>li_l1 := l1, li_l2 := l2, li_opcode := opcode,
                        li_neg_dydx := nd, li_pos_dydx := pd, li_loc := location,
                        li_f_val := (case fv of None \<Rightarrow> li_f_val (label_info s (last_label s + 1))
                                     | Some v \<Rightarrow> v)\<rparr>)\<rparr>,
                last_label s + 1))"
  by (simp add: store_union_label_def fetch_add_last_label_def dfsan_check_label_def Let_def
      split: option.splits)

lemma dfsan_create_label_eq:
  "dfsan_create_label s desc =
     (if last_label s + 1 = kInitializingLabel then Inl OutOfLabels
      else Inr (s\<lparr>last_label := last_label s + 1,
                  label_info := (label_info s)
                    (last_label s + 1 := (label_info s (last_label s + 1))
                       \<lparr>li_l1 := 0, li_l2 := 0, li_loc := desc,
                        li_neg_dydx := fone, li_pos_dydx := fone\<rparr>)\<rparr>,
                last_label s + 1))"
  by (simp add: dfsan_create_label_def fetch_add_last_label_def dfsan_check_label_def Let_def)

lemma store_union_label_added:
  "store_union_label s1 l1 l2 opcode nd pd location fv = Inr (s', l) \<Longrightarrow> kept s s1 \<Longrightarrow>
     added s s' l l1 l2"
  by (auto simp: store_union_label_eq kept_def added_def split: if_splits)

lemma int_union_effect:
  assumes "dfsan_int_union inst cfg s l1 l2 x1 x2 ret_addr opcode location = Inr (s', l)"
  shows "(kept s s' \<and> (l = 0 \<or> l = l1 \<or> l = l2)) \<or> added s s' l l1 l2"
proof (cases "l1 = 0 \<and> l2 = 0")
  case True
  with assms show ?thesis
    by (simp add: dfsan_int_union_def kept_def)
next
  case False
  show ?thesis
  proof (cases "reuse_labels cfg \<and> feq (neg_dx s l1) fzero \<and> feq (pos_dx s l1) fzero
                 \<and> feq (neg_dx s l2) fzero \<and> feq (pos_dx s l2) fzero")
    case True
    with False assms show ?thesis
      by (auto simp: dfsan_int_union_def input_derivs_def kept_def)
  next
    case nz: False
    from assms False nz obtain s1 nd pd fv where
      sw: "int_switch inst cfg s l2 x1 x2 ret_addr opcode location
             (neg_dx s l1, neg_dx s l2, pos_dx s l1, pos_dx s l2) = Inr (s1, nd, pd, fv)"
      and rest: "(if reuse_labels cfg \<and> l1 \<noteq> 0 \<and> feq pd (pos_dx s l1) \<and> feq nd (neg_dx s l1)
                  then Inr (s1, l1)
                  else if reuse_labels cfg \<and> l2 \<noteq> 0 \<and> feq pd (pos_dx s l2) \<and> feq nd (neg_dx s l2)
                  then Inr (s1, l2)
                  else store_union_label s1 l1 l2 opcode nd pd location (Some fv)) = Inr (s', l)"
      unfolding dfsan_int_union_def input_derivs_def
      by (simp add: ebind_eq_Inr split: prod.splits) blast
    from int_switch_frame [OF sw] have k: "kept s s1"
      by (simp add: kept_def)
    from rest k show ?thesis
      by (auto split: if_splits dest: store_union_label_added)
  qed
qed


lemma float_union_effect:
  assumes "dfsan_float_union T cfg s l1 l2 x1 x2 ret_addr opcode location = Inr (s', l)"
  shows "(kept s s' \<and> (l = 0 \<or> l = l1 \<or> l = l2)) \<or> added s s' l l1 l2"
proof (cases "l1 = 0 \<and> l2 = 0")
  case True
  with assms show ?thesis
    by (simp add: dfsan_float_union_def kept_def)
next
  case False
  show ?thesis
  proof (cases "reuse_labels cfg \<and> feq (neg_dx s l1) fzero \<and> feq (pos_dx s l1) fzero
                 \<and> feq (neg_dx s l2) fzero \<and> feq (pos_dx s l2) fzero")
    case True
    with False assms show ?thesis
      by (auto simp: dfsan_float_union_def input_derivs_def kept_def)
  next
    case nz: False
    from assms False nz obtain s1 nd pd where
      sw: "float_switch T cfg s l2 x1 x2 ret_addr opcode location
             (neg_dx s l1, neg_dx s l2, pos_dx s l1, pos_dx s l2) = Inr (s1, nd, pd)"
      and rest: "(if reuse_labels cfg \<and> l1 \<noteq> 0 \<and> feq pd (pos_dx s l1) \<and> feq nd (neg_dx s l1)
                  then Inr (s1, l1)
                  else if reuse_labels cfg \<and> l2 \<noteq> 0 \<and> feq pd (pos_dx s l2) \<and> feq nd (neg_dx s l2)
                  then Inr (s1, l2)
                  else store_union_label s1 l1 l2 (ucast opcode) nd pd location None) = Inr (s', l)"
      unfolding dfsan_float_union_def input_derivs_def
      by (simp add: ebind_eq_Inr split: prod.splits) blast
    from float_switch_frame [OF sw] have k: "kept s s1"
      by (simp add: kept_def)
    from rest k show ?thesis
      by (auto split: if_splits dest: store_union_label_added)
  qed
qed

lemma unsupported_union_effect:
  assumes "dfsan_union_unsupported_type s l1 l2 opcode location = Inr (s', l)"
  shows "(kept s s' \<and> (l = 0 \<or> l = l1 \<or> l = l2)) \<or> added s s' l l1 l2"
proof (cases "l1 = 0 \<and> l2 = 0")
  case True
  with assms show ?thesis
    by (simp add: dfsan_union_unsupported_type_def kept_def)
next
  case False
  have "kept s s"
    by (simp add: kept_def)
  with assms False show ?thesis
    by (auto simp: dfsan_union_unsupported_type_def dest: store_union_label_added)
qed

lemma create_label_added:
  "dfsan_create_label s desc = Inr (s', l) \<Longrightarrow> added s s' l 0 0"
  by (auto simp: dfsan_create_label_eq added_def split: if_splits)

subsection \<open>The label counter\<close>

lemma word_succ_unat:
  fixes x :: "16 word"
  assumes "x \<noteq> - 1"
  shows "unat (x + 1) = Suc (unat x)"
proof -
  from assms have "1 + x \<noteq> 0"
    by (metis add.commute add_eq_0_iff2)
  then have "unat (1 + x) = Suc (unat x)"
    by (rule unatSuc)
  then show ?thesis
    by (simp add: add.commute)
qed
lemma word_succ_less:
  fixes x :: "16 word"
  assumes "x \<noteq> - 1"
  shows "x < x + 1"
  using word_succ_unat [OF assms] by (simp add: word_less_nat_alt)
lemma word_succ_le:
  fixes x l :: "16 word"
  assumes "x \<noteq> - 1" "l \<le> x + 1"
  shows "l \<le> x \<or> l = x + 1"
proof -
  from assms have "unat l \<le> Suc (unat x)"
    by (simp add: word_le_nat_alt word_succ_unat)
  then have "unat l \<le> unat x \<or> unat l = unat (x + 1)"
    using word_succ_unat [OF assms(1)] by arith
  then show ?thesis
    by (auto simp: word_le_nat_alt word_unat_eq_iff)
qed

lemma allocate_cases:
  "(last_label s + 1 = - 1 \<and> allocate s r = Inl OutOfLabels)
   \<or> (last_label s + 1 \<noteq> - 1
       \<and> (\<exists>s'. allocate s r = Inr (s', last_label s + 1) \<and> last_label s' = last_label s + 1))"
  by (cases r) (auto simp: dfsan_create_label_eq store_union_label_eq kInitializingLabel_def)

lemma word16_unat_max: "unat (x :: 16 word) = 65535 \<longleftrightarrow> x = - 1"
proof
  have "unat (- 1 :: 16 word) = 65535"
    by (simp add: unsigned_minus_1_eq_mask mask_eq_exp_minus_1)
  moreover assume "unat x = 65535"
  ultimately have "unat x = unat (- 1 :: 16 word)"
    by simp
  then show "x = - 1"
    by (simp only: word_unat_eq_iff)
next
  assume "x = - 1"
  then show "unat x = 65535"
    by (simp add: unsigned_minus_1_eq_mask mask_eq_exp_minus_1)
qed

lemma word16_succ_max:
  fixes x :: "16 word"
  assumes "unat x \<le> 65534"
  shows "x + 1 = - 1 \<longleftrightarrow> unat x = 65534"
proof -
  from assms have "x \<noteq> - 1"
    using word16_unat_max [of x] by auto
  then have "unat (x + 1) = Suc (unat x)"
    by (rule word_succ_unat)
  then show ?thesis
    using word16_unat_max [of "x + 1"] by auto
qed

lemma allocate_all_ok:
  "unat (last_label s) + length rs \<le> 65534 \<Longrightarrow>
     \<exists>s'. allocate_all s rs = Inr s' \<and> unat (last_label s') = unat (last_label s) + length rs"
proof (induction rs arbitrary: s)
  case Nil
  show ?case
    by simp
next
  case (Cons r rs)
  from Cons.prems have small: "unat (last_label s) \<le> 65534" and lt: "unat (last_label s) \<noteq> 65534"
    by simp_all
  then have ne: "last_label s + 1 \<noteq> - 1"
    by (simp add: word16_succ_max)
  from small lt have nm: "last_label s \<noteq> - 1"
    using word16_unat_max [of "last_label s"] by auto
  from allocate_cases [of s r] ne obtain s1 where
    a: "allocate s r = Inr (s1, last_label s + 1)" and l: "last_label s1 = last_label s + 1"
    by auto
  from l nm have u: "unat (last_label s1) = Suc (unat (last_label s))"
    by (simp add: word_succ_unat)
  with Cons.prems have "unat (last_label s1) + length rs \<le> 65534"
    by simp
  from Cons.IH [OF this] u a show ?case
    by auto
qed

lemma allocate_all_exhausted:
  "unat (last_label s) \<le> 65534 \<Longrightarrow> 65534 < unat (last_label s) + length rs \<Longrightarrow>
     allocate_all s rs = Inl OutOfLabels"
proof (induction rs arbitrary: s)
  case Nil
  then show ?case
    by simp
next
  case (Cons r rs)
  show ?case
  proof (cases "unat (last_label s) = 65534")
    case True
    with Cons.prems(1) have "last_label s + 1 = - 1"
      by (simp add: word16_succ_max)
    with allocate_cases [of s r] show ?thesis
      by auto
  next
    case False
    with Cons.prems(1) have ne: "last_label s + 1 \<noteq> - 1"
      by (simp add: word16_succ_max)
    from Cons.prems(1) False have nm: "last_label s \<noteq> - 1"
      using word16_unat_max [of "last_label s"] by auto
    from allocate_cases [of s r] ne obtain s1 where
      a: "allocate s r = Inr (s1, last_label s + 1)" and l: "last_label s1 = last_label s + 1"
      by auto
    from l nm have u: "unat (last_label s1) = Suc (unat (last_label s))"
      by (simp add: word_succ_unat)
    with Cons.prems False have "unat (last_label s1) \<le> 65534"
      "65534 < unat (last_label s1) + length rs"
      by simp_all
    from Cons.IH [OF this] a show ?thesis
      by simp
  qed
qed

lemma allocate_all_labels:
  "unat (last_label s) + length rs \<le> 65534 \<Longrightarrow> i < length rs \<Longrightarrow>
     \<exists>s1 s2. allocate_all s (take i rs) = Inr s1
       \<and> allocate s1 (rs ! i) = Inr (s2, last_label s + of_nat (Suc i))"
proof (induction rs arbitrary: s i)
  case Nil
  then show ?case
    by simp
next
  case (Cons r rs)
  from Cons.prems have small: "unat (last_label s) \<le> 65534" and lt: "unat (last_label s) \<noteq> 65534"
    by simp_all
  then have ne: "last_label s + 1 \<noteq> - 1"
    by (simp add: word16_succ_max)
  from small lt have nm: "last_label s \<noteq> - 1"
    using word16_unat_max [of "last_label s"] by auto
  from allocate_cases [of s r] ne obtain s1 where
    a: "allocate s r = Inr (s1, last_label s + 1)" and l: "last_label s1 = last_label s + 1"
    by auto
  show ?case
  proof (cases i)
    case 0
    with a show ?thesis
      by simp
  next
    case (Suc j)
    from l nm have u: "unat (last_label s1) = Suc (unat (last_label s))"
      by (simp add: word_succ_unat)
    with Cons.prems Suc have "unat (last_label s1) + length rs \<le> 65534" "j < length rs"
      by simp_all
    from Cons.IH [OF this] obtain t1 t2 where
      "allocate_all s1 (take j rs) = Inr t1"
      "allocate t1 (rs ! j) = Inr (t2, last_label s1 + of_nat (Suc j))"
      by blast
    with a l Suc show ?thesis
      by (simp add: add.assoc add.commute)
  qed
qed

subsection \<open>The parent invariant\<close>

lemma dag_inv_kept: "dag_inv s \<Longrightarrow> kept s s' \<Longrightarrow> dag_inv s'"
  by (simp add: dag_inv_def kept_def)

lemma dag_inv_added:
  assumes inv: "dag_inv s" and add: "added s s' l l1 l2"
    and l1: "l1 \<le> last_label s" and l2: "l2 \<le> last_label s"
  shows "dag_inv s'"
proof -
  let ?x = "last_label s"
  from inv have x: "?x \<noteq> - 1"
    by (simp add: dag_inv_def kInitializingLabel_def)
  from add have l: "l = ?x + 1" and last: "last_label s' = l" and ok: "l \<noteq> kInitializingLabel"
    and other: "\<And>k. k \<noteq> l \<Longrightarrow> label_info s' k = label_info s k"
    and p1: "li_l1 (label_info s' l) = l1" and p2: "li_l2 (label_info s' l) = l2"
    by (auto simp: added_def)
  have lt: "?x < l"
    unfolding l using x by (rule word_succ_less)
  have "li_l1 (label_info s' k) < k \<and> li_l2 (label_info s' k) < k"
    if k: "0 < k" "k \<le> last_label s'" for k
  proof -
    from k last l have "k \<le> ?x + 1"
      by simp
    with x have "k \<le> ?x \<or> k = ?x + 1"
      by (rule word_succ_le)
    then show ?thesis
    proof
      assume le: "k \<le> ?x"
      with lt have "k \<noteq> l"
        by auto
      with other have "label_info s' k = label_info s k"
        by simp
      with inv k(1) le show ?thesis
        by (simp add: dag_inv_def)
    next
      assume "k = ?x + 1"
      with l have "k = l"
        by simp
      with p1 p2 l1 l2 lt show ?thesis
        by auto
    qed
  qed
  with ok last show ?thesis
    by (simp add: dag_inv_def)
qed

lemma dag_inv_effect:
  assumes "dag_inv s" "(kept s s' \<and> (l = 0 \<or> l = l1 \<or> l = l2)) \<or> added s s' l l1 l2"
    "l1 \<le> last_label s" "l2 \<le> last_label s"
  shows "dag_inv s'"
  using assms by (auto intro: dag_inv_kept dag_inv_added)

lemma reachable_dag_inv: "reachable cfg s \<Longrightarrow> dag_inv s"
proof (induction rule: reachable.induct)
  case reach_init
  show ?case
    by (auto simp: dag_inv_def dfsan_init_def kInitializingLabel_def)
next
  case (reach_flush s)
  show ?case
    by (auto simp: dag_inv_def dfsan_flush_def kInitializingLabel_def)
next
  case (reach_create s desc s' l)
  from create_label_added [OF reach_create.hyps(2)] reach_create.IH show ?case
    by (auto intro: dag_inv_added)
next
  case (reach_int_union s l1 l2 inst x1 x2 ret_addr opcode location s' l)
  from reach_int_union.IH int_union_effect [OF reach_int_union.hyps(4)]
    reach_int_union.hyps(2,3)
  show ?case
    by (rule dag_inv_effect)
next
  case (reach_float_union s l1 l2 T y1 y2 ret_addr fopcode location s' l)
  from reach_float_union.IH float_union_effect [OF reach_float_union.hyps(4)]
    reach_float_union.hyps(2,3)
  show ?case
    by (rule dag_inv_effect)
next
  case (reach_unsupported s l1 l2 opcode location s' l)
  from reach_unsupported.IH unsupported_union_effect [OF reach_unsupported.hyps(4)]
    reach_unsupported.hyps(2,3)
  show ?case
    by (rule dag_inv_effect)
next
  case (reach_set_label s smask label addr sz)
  then show ?case
    by (simp add: dag_inv_def dfsan_set_label_def uu_dfsan_set_label_def)
qed

lemma parent_rel_acyclic:
  assumes "dag_inv s"
  shows "acyclic (parent_rel s)"
proof -
  have "parent_rel s \<subseteq> measure unat"
    using assms by (auto simp: parent_rel_def dag_inv_def word_less_nat_alt)
  then have "wf (parent_rel s)"
    by (rule wf_subset [OF wf_measure])
  then show ?thesis
    by (rule wf_acyclic)
qed

subsection \<open>Floating-point comparison and zero\<close>

lemma feq_sym: "feq a b \<Longrightarrow> feq b a"
  by (cases a; cases b) (auto simp: feq_def Let_def min.commute)

lemma same_value_refl: "same_value a a"
  by (cases a) (auto simp: same_value_def feq_def is_nan_def Let_def)

lemma same_value_feq: "feq a b \<Longrightarrow> same_value b a"
  by (simp add: same_value_def feq_sym)

lemma feq_fzero: "feq a fzero \<longleftrightarrow> is_zero a"
  by (cases a) (auto simp: feq_def fzero_def is_zero_def scaled_def Let_def)

lemma is_zero_cases: "is_zero a \<Longrightarrow> \<exists>s e. a = FFin s 0 e"
  by (cases a) (auto simp: is_zero_def)

lemma feq_zero_zero: "is_zero a \<Longrightarrow> is_zero b \<Longrightarrow> feq a b"
  by (cases a; cases b) (auto simp: feq_def is_zero_def scaled_def Let_def)

lemma fadd_zero_zero: "is_zero a \<Longrightarrow> is_zero b \<Longrightarrow> is_zero (fadd f a b)"
  by (cases a; cases b) (auto simp: fadd_def is_zero_def scaled_def Let_def)

lemma fneg_zero: "is_zero a \<Longrightarrow> is_zero (fneg a)"
  by (cases a) (auto simp: fneg_def is_zero_def)

lemma fsub_zero_zero: "is_zero a \<Longrightarrow> is_zero b \<Longrightarrow> is_zero (fsub f a b)"
  by (simp add: fsub_def fadd_zero_zero fneg_zero)

lemma is_zero_fzero: "is_zero fzero"
  by (simp add: is_zero_def fzero_def)

subsection \<open>Integers as \<open>float\<close>s\<close>

lemma bitlen_bound: "m < 2 ^ k \<Longrightarrow> bitlen m \<le> k"
proof (induction k arbitrary: m)
  case 0
  then show ?case
    by (simp add: bitlen.simps)
next
  case (Suc k)
  show ?case
  proof (cases "m = 0")
    case True
    then show ?thesis
      by (simp add: bitlen.simps)
  next
    case False
    from Suc.prems have "m div 2 < 2 ^ k"
      by simp
    then have "bitlen (m div 2) \<le> k"
      by (rule Suc.IH)
    with False show ?thesis
      by (subst bitlen.simps) simp
  qed
qed

lemma fround_finite:
  assumes "e + int (bitlen m) \<le> 100"
  shows "\<exists>s' m' e'. fround binary32 s m e = FFin s' m' e'"
  using assms by (auto simp: fround_def binary32_def Let_def)

lemma in_range_bound: "in_range t x \<Longrightarrow> nat \<bar>x\<bar> < 2 ^ 64"
  by (cases t) (auto simp: in_range_def)

lemma to_float_finite:
  assumes "in_range t x"
  shows "\<exists>s m e. to_float x = FFin s m e"
proof -
  from assms have "bitlen (nat \<bar>x\<bar>) \<le> 64"
    by (intro bitlen_bound in_range_bound)
  then have "0 + int (bitlen (nat \<bar>x\<bar>)) \<le> 100"
    by simp
  then show ?thesis
    unfolding to_float_def fp_of_int_def by (rule fround_finite)
qed

lemma fmul_finite_zero:
  assumes "x = FFin s m e" "is_zero b"
  shows "is_zero (fmul f x b)"
  using assms by (cases b) (auto simp: fmul_def is_zero_def fround_def)

lemma product_zero:
  assumes "in_range t x1" "in_range t x2" "is_zero a" "is_zero b"
  shows "is_zero (fadd binary32 (fmul binary32 (to_float x1) b) (fmul binary32 (to_float x2) a))"
proof -
  from to_float_finite [OF assms(1)] assms(4)
  have "is_zero (fmul binary32 (to_float x1) b)"
    by (auto intro: fmul_finite_zero)
  moreover from to_float_finite [OF assms(2)] assms(3)
  have "is_zero (fmul binary32 (to_float x2) a)"
    by (auto intro: fmul_finite_zero)
  ultimately show ?thesis
    by (rule fadd_zero_zero)
qed

subsection \<open>Conversion to \<open>int\<close>\<close>

lemma cbits_uac: "32 \<le> cbits (uac a b)"
  by (cases a; cases b) (simp_all add: uac_def promote_def)

lemma cbits_promote: "32 \<le> cbits (promote a)"
  by (cases a) (simp_all add: promote_def)

lemma mod_pow_cancel:
  fixes v :: int
  assumes "k \<le> b"
  shows "(v mod 2 ^ b) mod 2 ^ k = v mod 2 ^ k"
proof -
  from assms have "(2::int) ^ k dvd 2 ^ b"
    by (rule le_imp_power_dvd)
  then show ?thesis
    by (rule mod_mod_cancel)
qed

lemma ccast_mod:
  assumes "k \<le> cbits t"
  shows "ccast t v mod 2 ^ k = v mod 2 ^ k"
proof (cases "csigned t")
  case False
  with assms show ?thesis
    by (simp only: ccast_def if_False mod_pow_cancel)
next
  case True
  let ?h = "(2::int) ^ (cbits t - 1)"
  have "((v + ?h) mod 2 ^ cbits t - ?h) mod 2 ^ k
      = (((v + ?h) mod 2 ^ cbits t) mod 2 ^ k - ?h) mod 2 ^ k"
    by (simp only: mod_diff_left_eq)
  also have "\<dots> = ((v + ?h) mod 2 ^ k - ?h) mod 2 ^ k"
    using assms by (simp only: mod_pow_cancel)
  also have "\<dots> = (v + ?h - ?h) mod 2 ^ k"
    by (simp only: mod_diff_left_eq)
  also have "\<dots> = v mod 2 ^ k"
    by simp
  finally show ?thesis
    using True by (simp only: ccast_def if_True)
qed

lemma ccast_cong:
  assumes "a mod 2 ^ cbits t = b mod 2 ^ cbits t"
  shows "ccast t a = ccast t b"
proof -
  have "(a + 2 ^ (cbits t - 1)) mod 2 ^ cbits t = (b + 2 ^ (cbits t - 1)) mod (2 ^ cbits t :: int)"
    using assms by (rule mod_add_cong) (rule refl)
  with assms show ?thesis
    by (simp only: ccast_def)
qed

lemma c_arith_mod:
  assumes "c_arith t r = Inr v" "k \<le> cbits t"
  shows "snd v mod 2 ^ k = r mod 2 ^ k"
proof -
  from assms(1) have "snd v = ccast t r"
    by (auto simp: c_arith_def)
  with assms(2) show ?thesis
    by (simp only: ccast_mod)
qed

lemma cbits_S32_le_uac: "cbits S32 \<le> cbits (uac a b)"
  using cbits_uac [of a b] by simp

lemma c_add_f_val:
  assumes "c_add (t1, x1) (t2, x2) = Inr r"
  shows "ccast S32 (snd r) = ccast S32 (x1 + x2)"
proof -
  let ?t = "uac t1 t2"
  let ?k = "cbits S32"
  from assms have "c_arith ?t (ccast ?t x1 + ccast ?t x2) = Inr r"
    by (simp add: c_add_def Let_def)
  then have "snd r mod 2 ^ ?k = (ccast ?t x1 + ccast ?t x2) mod 2 ^ ?k"
    using cbits_S32_le_uac by (rule c_arith_mod)
  also have "\<dots> = (x1 + x2) mod 2 ^ ?k"
    by (rule mod_add_cong) (rule ccast_mod [OF cbits_S32_le_uac])+
  finally show ?thesis
    by (rule ccast_cong)
qed

lemma c_sub_f_val:
  assumes "c_sub (t1, x1) (t2, x2) = Inr r"
  shows "ccast S32 (snd r) = ccast S32 (x1 - x2)"
proof -
  let ?t = "uac t1 t2"
  let ?k = "cbits S32"
  from assms have "c_arith ?t (ccast ?t x1 - ccast ?t x2) = Inr r"
    by (simp add: c_sub_def Let_def)
  then have "snd r mod 2 ^ ?k = (ccast ?t x1 - ccast ?t x2) mod 2 ^ ?k"
    using cbits_S32_le_uac by (rule c_arith_mod)
  also have "\<dots> = (x1 - x2) mod 2 ^ ?k"
    by (rule mod_diff_cong) (rule ccast_mod [OF cbits_S32_le_uac])+
  finally show ?thesis
    by (rule ccast_cong)
qed

lemma c_mul_f_val:
  assumes "c_mul (t1, x1) (t2, x2) = Inr r"
  shows "ccast S32 (snd r) = ccast S32 (x1 * x2)"
proof -
  let ?t = "uac t1 t2"
  let ?k = "cbits S32"
  from assms have "c_arith ?t (ccast ?t x1 * ccast ?t x2) = Inr r"
    by (simp add: c_mul_def Let_def)
  then have "snd r mod 2 ^ ?k = (ccast ?t x1 * ccast ?t x2) mod 2 ^ ?k"
    using cbits_S32_le_uac by (rule c_arith_mod)
  also have "\<dots> = (x1 * x2) mod 2 ^ ?k"
    by (rule mod_mult_cong) (rule ccast_mod [OF cbits_S32_le_uac])+
  finally show ?thesis
    by (rule ccast_cong)
qed

lemma cbits_Suc: "\<exists>b. cbits t = Suc b"
  by (cases t) (simp_all add: numeral_eq_Suc)

lemma ccast_in_range:
  assumes "in_range t v"
  shows "ccast t v = v"
proof (cases "csigned t")
  case False
  with assms show ?thesis
    by (simp add: ccast_def in_range_def)
next
  case True
  obtain b where b: "cbits t = Suc b"
    using cbits_Suc by blast
  from assms True b have "0 \<le> v + 2 ^ b" "v + 2 ^ b < 2 ^ Suc b"
    by (simp_all add: in_range_def)
  then have "(v + 2 ^ b) mod 2 ^ Suc b = v + 2 ^ b"
    by (rule mod_pos_pos_trivial)
  with True b show ?thesis
    by (simp add: ccast_def)
qed

subsection \<open>The paths through \<open>DFSAN_INT_UNION\<close>\<close>

lemma int_union_cases [consumes 2, case_names early reuse1 reuse2 new]:
  assumes "dfsan_int_union inst cfg s l1 l2 x1 x2 ret_addr opcode location = Inr (s', l)"
    and "l1 \<noteq> 0 \<or> l2 \<noteq> 0"
  obtains
    (early) "reuse_labels cfg" "is_zero (neg_dx s l1)" "is_zero (pos_dx s l1)"
      "is_zero (neg_dx s l2)" "is_zero (pos_dx s l2)" "s' = s" "l = (if l1 \<noteq> 0 then l1 else l2)"
  | (reuse1) s1 nd pd fv where
      "int_switch inst cfg s l2 x1 x2 ret_addr opcode location
         (neg_dx s l1, neg_dx s l2, pos_dx s l1, pos_dx s l2) = Inr (s1, nd, pd, fv)"
      "reuse_labels cfg" "l1 \<noteq> 0" "feq pd (pos_dx s l1)" "feq nd (neg_dx s l1)" "s' = s1" "l = l1"
  | (reuse2) s1 nd pd fv where
      "int_switch inst cfg s l2 x1 x2 ret_addr opcode location
         (neg_dx s l1, neg_dx s l2, pos_dx s l1, pos_dx s l2) = Inr (s1, nd, pd, fv)"
      "reuse_labels cfg" "l2 \<noteq> 0" "feq pd (pos_dx s l2)" "feq nd (neg_dx s l2)" "s' = s1" "l = l2"
  | (new) s1 nd pd fv where
      "int_switch inst cfg s l2 x1 x2 ret_addr opcode location
         (neg_dx s l1, neg_dx s l2, pos_dx s l1, pos_dx s l2) = Inr (s1, nd, pd, fv)"
      "store_union_label s1 l1 l2 opcode nd pd location (Some fv) = Inr (s', l)"
      "\<not> reuse_labels cfg \<or> \<not> (is_zero (neg_dx s l1) \<and> is_zero (pos_dx s l1)
          \<and> is_zero (neg_dx s l2) \<and> is_zero (pos_dx s l2))"
proof (cases "reuse_labels cfg \<and> feq (neg_dx s l1) fzero \<and> feq (pos_dx s l1) fzero
                 \<and> feq (neg_dx s l2) fzero \<and> feq (pos_dx s l2) fzero")
  case True
  with assms have "s' = s" "l = (if l1 \<noteq> 0 then l1 else l2)"
    by (auto simp: dfsan_int_union_def input_derivs_def)
  with True show ?thesis
    by (intro early) (simp_all add: feq_fzero)
next
  case nz: False
  from assms(2) have notboth: "\<not> (l1 = 0 \<and> l2 = 0)"
    by simp
  from assms(1) notboth nz obtain s1 nd pd fv where
    sw: "int_switch inst cfg s l2 x1 x2 ret_addr opcode location
           (neg_dx s l1, neg_dx s l2, pos_dx s l1, pos_dx s l2) = Inr (s1, nd, pd, fv)"
    and rest: "(if reuse_labels cfg \<and> l1 \<noteq> 0 \<and> feq pd (pos_dx s l1) \<and> feq nd (neg_dx s l1)
                then Inr (s1, l1)
                else if reuse_labels cfg \<and> l2 \<noteq> 0 \<and> feq pd (pos_dx s l2) \<and> feq nd (neg_dx s l2)
                then Inr (s1, l2)
                else store_union_label s1 l1 l2 opcode nd pd location (Some fv)) = Inr (s', l)"
    unfolding dfsan_int_union_def input_derivs_def
    by (simp add: ebind_eq_Inr split: prod.splits) blast
  show ?thesis
  proof (cases "reuse_labels cfg \<and> l1 \<noteq> 0 \<and> feq pd (pos_dx s l1) \<and> feq nd (neg_dx s l1)")
    case True
    with rest sw show ?thesis
      by (intro reuse1 [of s1 nd pd fv]) (auto split: if_splits)
  next
    case n1: False
    show ?thesis
    proof (cases "reuse_labels cfg \<and> l2 \<noteq> 0 \<and> feq pd (pos_dx s l2) \<and> feq nd (neg_dx s l2)")
      case True
      with rest sw n1 show ?thesis
        by (intro reuse2 [of s1 nd pd fv]) (auto split: if_splits)
    next
      case False
      with rest n1 have "store_union_label s1 l1 l2 opcode nd pd location (Some fv) = Inr (s', l)"
        by (simp split: if_splits)
      with sw nz show ?thesis
        by (intro new [of s1 nd pd fv]) (auto simp: feq_fzero)
    qed
  qed
qed

lemma int_switch_ADD:
  "unat opcode = ADD \<Longrightarrow>
   int_switch inst cfg s l2 x1 x2 ret_addr opcode location dx =
     ebind (case_ADD inst x1 x2 dx) (\<lambda>r. Inr (s, r))"
  by (simp add: int_switch_def)

lemma int_switch_SUB:
  "unat opcode = SUB \<Longrightarrow>
   int_switch inst cfg s l2 x1 x2 ret_addr opcode location dx =
     ebind (case_SUB inst x1 x2 dx) (\<lambda>r. Inr (s, r))"
  by (simp add: int_switch_def ADD_def SUB_def)

lemma int_switch_MUL:
  "unat opcode = MUL \<Longrightarrow>
   int_switch inst cfg s l2 x1 x2 ret_addr opcode location dx =
     ebind (case_MUL inst x1 x2 dx) (\<lambda>r. Inr (s, r))"
  by (simp add: int_switch_def ADD_def SUB_def MUL_def)

lemma case_ADD_result:
  assumes "case_ADD inst x1 x2 (a, b, c, d) = Inr (nd, pd, fv)"
  shows "nd = fadd binary32 a b \<and> pd = fadd binary32 c d \<and> fv = ccast S32 (x1 + x2)"
  using assms by (auto simp: case_ADD_def ebind_eq_Inr dest: c_add_f_val)

lemma case_SUB_result:
  assumes "case_SUB inst x1 x2 (a, b, c, d) = Inr (nd, pd, fv)"
  shows "nd = fsub binary32 a b \<and> pd = fsub binary32 c d \<and> fv = ccast S32 (x1 - x2)"
  using assms by (auto simp: case_SUB_def ebind_eq_Inr dest: c_sub_f_val)

lemma case_MUL_result:
  assumes "case_MUL inst x1 x2 (a, b, c, d) = Inr (nd, pd, fv)"
  shows "nd = fadd binary32 (fmul binary32 (to_float x1) b) (fmul binary32 (to_float x2) a)
       \<and> pd = fadd binary32 (fmul binary32 (to_float x1) d) (fmul binary32 (to_float x2) c)
       \<and> fv = ccast S32 (x1 * x2)"
  using assms by (auto simp: case_MUL_def ebind_eq_Inr dest: c_mul_f_val)

text \<open>The three arithmetic cases always yield a result.\<close>

lemma c_arith_total:
  "\<exists>r. c_add a b = Inr r" "\<exists>r. c_sub a b = Inr r" "\<exists>r. c_mul a b = Inr r"
  by (simp_all add: c_add_def c_sub_def c_mul_def c_arith_def Let_def)

lemma case_ADD_eq:
  "case_ADD inst x1 x2 (a, b, c, d) =
     Inr (fadd binary32 a b, fadd binary32 c d, ccast S32 (x1 + x2))"
proof -
  obtain r where r: "c_add (Type inst, x1) (Type inst, x2) = Inr r"
    using c_arith_total(1) by blast
  from c_add_f_val [OF r] r show ?thesis
    by (simp add: case_ADD_def)
qed

lemma case_SUB_eq:
  "case_SUB inst x1 x2 (a, b, c, d) =
     Inr (fsub binary32 a b, fsub binary32 c d, ccast S32 (x1 - x2))"
proof -
  obtain r where r: "c_sub (Type inst, x1) (Type inst, x2) = Inr r"
    using c_arith_total(2) by blast
  from c_sub_f_val [OF r] r show ?thesis
    by (simp add: case_SUB_def)
qed

lemma case_MUL_eq:
  "case_MUL inst x1 x2 (a, b, c, d) =
     Inr (fadd binary32 (fmul binary32 (to_float x1) b) (fmul binary32 (to_float x2) a),
          fadd binary32 (fmul binary32 (to_float x1) d) (fmul binary32 (to_float x2) c),
          ccast S32 (x1 * x2))"
proof -
  obtain r where r: "c_mul (Type inst, x1) (Type inst, x2) = Inr r"
    using c_arith_total(3) by blast
  from c_mul_f_val [OF r] r show ?thesis
    by (simp add: case_MUL_def)
qed

text \<open>A call whose \<open>switch\<close> yields a result returns, unless the label table is
  exhausted.\<close>

lemma int_union_returns:
  assumes "int_switch inst cfg s l2 x1 x2 ret_addr opcode location
             (neg_dx s l1, neg_dx s l2, pos_dx s l1, pos_dx s l2) = Inr (s1, r)"
    and "last_label s1 = last_label s"
    and "last_label s + 1 \<noteq> kInitializingLabel"
  shows "\<exists>s' l. dfsan_int_union inst cfg s l1 l2 x1 x2 ret_addr opcode location = Inr (s', l)"
  using assms
  by (cases r) (auto simp: dfsan_int_union_def input_derivs_def store_union_label_eq)

lemma arith_union_returns:
  assumes "unat opcode = ADD \<or> unat opcode = SUB \<or> unat opcode = MUL"
    and "last_label s + 1 \<noteq> kInitializingLabel"
  shows "\<exists>s' l. dfsan_int_union inst cfg s l1 l2 x1 x2 ret_addr opcode location = Inr (s', l)"
proof -
  from assms(1) have "\<exists>r. int_switch inst cfg s l2 x1 x2 ret_addr opcode location
      (neg_dx s l1, neg_dx s l2, pos_dx s l1, pos_dx s l2) = Inr (s, r)"
    by (auto simp: int_switch_ADD int_switch_SUB int_switch_MUL case_ADD_eq case_SUB_eq
        case_MUL_eq)
  then obtain r where "int_switch inst cfg s l2 x1 x2 ret_addr opcode location
      (neg_dx s l1, neg_dx s l2, pos_dx s l1, pos_dx s l2) = Inr (s, r)"
    by blast
  then show ?thesis
    using refl assms(2) by (rule int_union_returns)
qed

lemma store_union_label_new:
  assumes "store_union_label s1 l1 l2 opcode nd pd location (Some fv) = Inr (s', l)"
  shows "li_neg_dydx (label_info s' l) = nd \<and> li_pos_dydx (label_info s' l) = pd
       \<and> li_f_val (label_info s' l) = fv \<and> li_opcode (label_info s' l) = opcode
       \<and> li_l1 (label_info s' l) = l1 \<and> li_l2 (label_info s' l) = l2
       \<and> l = last_label s1 + 1 \<and> last_label s' = l \<and> last_label s' \<noteq> last_label s1"
  using assms by (auto simp: store_union_label_eq split: if_splits)

text \<open>The common shape of the linear and product rules: the switch does not touch the
  state and yields the derivative pair \<open>(nd, pd)\<close> and the value \<open>fv\<close>.\<close>

lemma int_union_rule:
  assumes u: "dfsan_int_union inst cfg s l1 l2 x1 x2 ret_addr opcode location = Inr (s', l)"
    and nz: "l1 \<noteq> 0 \<or> l2 \<noteq> 0"
    and sw: "\<And>s1 nd' pd' fv'.
        int_switch inst cfg s l2 x1 x2 ret_addr opcode location
          (neg_dx s l1, neg_dx s l2, pos_dx s l1, pos_dx s l2) = Inr (s1, nd', pd', fv')
        \<Longrightarrow> s1 = s \<and> nd' = nd \<and> pd' = pd \<and> fv' = fv"
    and z: "is_zero (neg_dx s l1) \<Longrightarrow> is_zero (neg_dx s l2) \<Longrightarrow> is_zero nd"
           "is_zero (pos_dx s l1) \<Longrightarrow> is_zero (pos_dx s l2) \<Longrightarrow> is_zero pd"
  shows "propagated cfg s s' l nd pd fv"
  using u nz
proof (cases rule: int_union_cases)
  case early
  have "neg_dx s l = (if l1 \<noteq> 0 then neg_dx s l1 else neg_dx s l2)"
    "pos_dx s l = (if l1 \<noteq> 0 then pos_dx s l1 else pos_dx s l2)"
    by (simp_all add: early(7))
  with early nz have zl: "is_zero (li_neg_dydx (label_info s l))" "is_zero (li_pos_dydx (label_info s l))"
    by (auto simp: neg_dx_def pos_dx_def split: if_splits)
  from early z have "is_zero nd" "is_zero pd"
    by simp_all
  with zl early(1,6) show ?thesis
    by (simp add: propagated_def same_value_def feq_zero_zero)
next
  case (reuse1 s1 nd' pd' fv')
  from sw [OF reuse1(1)] have e: "s1 = s" "nd' = nd" "pd' = pd"
    by simp_all
  from reuse1 e show ?thesis
    by (simp add: propagated_def same_value_feq neg_dx_def pos_dx_def)
next
  case (reuse2 s1 nd' pd' fv')
  from sw [OF reuse2(1)] have e: "s1 = s" "nd' = nd" "pd' = pd"
    by simp_all
  from reuse2 e show ?thesis
    by (simp add: propagated_def same_value_feq neg_dx_def pos_dx_def)
next
  case (new s1 nd' pd' fv')
  from sw [OF new(1)] have e: "s1 = s" "nd' = nd" "pd' = pd" "fv' = fv"
    by simp_all
  from store_union_label_new [OF new(2)] e show ?thesis
    by (auto simp: propagated_def same_value_refl)
qed

subsection \<open>The example states\<close>

lemma with_label_simps:
  "last_label (with_label s l info) = l"
  "label_info (with_label s l info) k = (if k = l then info else label_info s k)"
  "shadow (with_label s l info) = shadow s"
  "arg_index (with_label s l info) = arg_index s"
  by (simp_all add: with_label_def)

lemma label_info_all_fields:
  "(r :: dfsan_label_info)\<lparr>li_l1 := l1, li_l2 := l2, li_opcode := opcode, li_neg_dydx := nd,
       li_pos_dydx := pd, li_loc := location, li_f_val := fv\<rparr> =
     \<lparr>li_l1 = l1, li_l2 = l2, li_loc = location, li_neg_dydx = nd, li_pos_dydx = pd,
      li_opcode = opcode, li_f_val = fv\<rparr>"
  by (cases r) simp

lemma store_union_label_with:
  assumes "last_label s + 1 = l" "l \<noteq> - 1"
  shows "store_union_label s l1 l2 opcode nd pd location (Some fv) =
     Inr (with_label s l \<lparr>li_l1 = l1, li_l2 = l2, li_loc = location, li_neg_dydx = nd,
            li_pos_dydx = pd, li_opcode = opcode, li_f_val = fv\<rparr>, l)"
  using assms
  by (simp add: store_union_label_eq with_label_def kInitializingLabel_def label_info_all_fields)

lemma create_label_with:
  assumes "last_label s + 1 = l" "l \<noteq> - 1" "label_info s l = zero_label_info"
  shows "dfsan_create_label s (Some desc) = Inr (with_label s l (unit_info desc), l)"
  using assms
  by (simp add: dfsan_create_label_eq with_label_def kInitializingLabel_def unit_info_def
      zero_label_info_def)

lemma int_union_new_eq:
  assumes "l1 \<noteq> 0 \<or> l2 \<noteq> 0"
    and "int_switch inst cfg s l2 x1 x2 ret_addr opcode location
           (neg_dx s l1, neg_dx s l2, pos_dx s l1, pos_dx s l2) = Inr (s1, nd, pd, fv)"
    and "\<not> (is_zero (neg_dx s l1) \<and> is_zero (pos_dx s l1)
            \<and> is_zero (neg_dx s l2) \<and> is_zero (pos_dx s l2))"
    and "l1 = 0 \<or> \<not> (feq pd (pos_dx s l1) \<and> feq nd (neg_dx s l1))"
    and "l2 = 0 \<or> \<not> (feq pd (pos_dx s l2) \<and> feq nd (neg_dx s l2))"
  shows "dfsan_int_union inst cfg s l1 l2 x1 x2 ret_addr opcode location =
           store_union_label s1 l1 l2 opcode nd pd location (Some fv)"
  using assms by (auto simp: dfsan_int_union_def input_derivs_def feq_fzero)

lemma int_union_reuse1_eq:
  assumes "l1 \<noteq> 0" "reuse_labels cfg"
    and "int_switch inst cfg s l2 x1 x2 ret_addr opcode location
           (neg_dx s l1, neg_dx s l2, pos_dx s l1, pos_dx s l2) = Inr (s1, nd, pd, fv)"
    and "\<not> (is_zero (neg_dx s l1) \<and> is_zero (pos_dx s l1)
            \<and> is_zero (neg_dx s l2) \<and> is_zero (pos_dx s l2))"
    and "feq pd (pos_dx s l1)" "feq nd (neg_dx s l1)"
  shows "dfsan_int_union inst cfg s l1 l2 x1 x2 ret_addr opcode location = Inr (s1, l1)"
  using assms by (auto simp: dfsan_int_union_def input_derivs_def feq_fzero)

lemma st_x_run: "dfsan_create_label (dfsan_flush dfsan_init) (Some ''x'') = Inr (st_x, 1)"
  unfolding st_x_def by (rule create_label_with) (simp_all add: dfsan_flush_def)

lemma st_x_facts:
  "last_label st_x = 1" "neg_dx st_x 0 = fzero" "pos_dx st_x 0 = fzero"
  "neg_dx st_x 1 = fone" "pos_dx st_x 1 = fone" "li_f_val (label_info st_x 1) = 0"
  by (simp_all add: st_x_def with_label_simps neg_dx_def pos_dx_def unit_info_def)

lemma fone_facts:
  "\<not> is_zero fone" "\<not> feq (to_float 4) fone" "\<not> feq (to_float 2) fone"
  "\<not> feq (to_float 3) fone" "\<not> feq (to_float 3) (to_float 2)" "\<not> is_zero (to_float 2)"
  "feq fone fone" "fadd binary32 fone fzero = fone" "fadd binary32 fone fone = to_float 2"
  "fadd binary32 fone (to_float 2) = to_float 3"
  by code_simp+

lemma mul_4_1: "case_MUL int_inst 4 1 (fzero, fone, fzero, fone) = Inr (to_float 4, to_float 4, 4)"
  by code_simp

lemma st_y_run_int:
  "dfsan_int_union int_inst example_cfg st_x 0 1 4 1 0 15 None = Inr (st_y, 2)"
proof -
  have sw: "int_switch int_inst example_cfg st_x 1 4 1 0 15 None
      (neg_dx st_x 0, neg_dx st_x 1, pos_dx st_x 0, pos_dx st_x 1) =
      Inr (st_x, to_float 4, to_float 4, 4)"
    by (simp add: int_switch_MUL MUL_def st_x_facts mul_4_1)
  have "dfsan_int_union int_inst example_cfg st_x 0 1 4 1 0 15 None =
      store_union_label st_x 0 1 15 (to_float 4) (to_float 4) None (Some 4)"
    by (rule int_union_new_eq [OF _ sw]) (simp_all add: st_x_facts fone_facts)
  then show ?thesis
    by (simp add: store_union_label_with st_x_facts st_y_def)
qed

lemma st_y_run: "dfsan_union example_cfg st_x 0 1 4 1 0 15 None = Inr (st_y, 2)"
  using st_y_run_int by (simp add: dfsan_union_def)

lemma st_y_facts:
  "last_label st_y = 2" "li_l1 (label_info st_y 2) = 0" "li_l2 (label_info st_y 2) = 1"
  "li_neg_dydx (label_info st_y 2) = to_float 4" "li_pos_dydx (label_info st_y 2) = to_float 4"
  "li_f_val (label_info st_y 2) = 4" "li_opcode (label_info st_y 2) = 15"
  by (simp_all add: st_y_def with_label_simps)

lemma add_5_3: "case_ADD int_inst 5 3 (fone, fzero, fone, fzero) = Inr (fone, fone, 8)"
  by code_simp

lemma reuse_add_run_int:
  "dfsan_int_union int_inst example_cfg st_x 1 0 5 3 0 11 None = Inr (st_x, 1)"
proof -
  have sw: "int_switch int_inst example_cfg st_x 0 5 3 0 11 None
      (neg_dx st_x 1, neg_dx st_x 0, pos_dx st_x 1, pos_dx st_x 0) = Inr (st_x, fone, fone, 8)"
    by (simp add: int_switch_ADD ADD_def st_x_facts add_5_3)
  show ?thesis
    by (rule int_union_reuse1_eq [OF _ _ sw])
      (simp_all add: st_x_facts fone_facts example_cfg_def)
qed

lemma st_x2_run: "dfsan_create_label st_x (Some ''x2'') = Inr (st_x2, 2)"
  unfolding st_x2_def
  by (rule create_label_with) (simp_all add: st_x_def with_label_simps dfsan_flush_def)

lemma st_x2_facts:
  "last_label st_x2 = 2" "neg_dx st_x2 1 = fone" "pos_dx st_x2 1 = fone"
  "neg_dx st_x2 2 = fone" "pos_dx st_x2 2 = fone"
  by (simp_all add: st_x2_def st_x_def with_label_simps neg_dx_def pos_dx_def unit_info_def)

lemma add_1_1: "case_ADD int_inst 1 1 (fone, fone, fone, fone) = Inr (to_float 2, to_float 2, 2)"
  by code_simp

lemma st_sum_run_int:
  "dfsan_int_union int_inst example_cfg st_x2 1 2 1 1 0 11 None = Inr (st_sum, 3)"
proof -
  have sw: "int_switch int_inst example_cfg st_x2 2 1 1 0 11 None
      (neg_dx st_x2 1, neg_dx st_x2 2, pos_dx st_x2 1, pos_dx st_x2 2) =
      Inr (st_x2, to_float 2, to_float 2, 2)"
    by (simp add: int_switch_ADD ADD_def st_x2_facts add_1_1)
  have "dfsan_int_union int_inst example_cfg st_x2 1 2 1 1 0 11 None =
      store_union_label st_x2 1 2 11 (to_float 2) (to_float 2) None (Some 2)"
    by (rule int_union_new_eq [OF _ sw]) (simp_all add: st_x2_facts fone_facts)
  then show ?thesis
    by (simp add: store_union_label_with st_x2_facts st_sum_def)
qed

lemma st_sum_facts:
  "last_label st_sum = 3" "neg_dx st_sum 1 = fone" "pos_dx st_sum 1 = fone"
  "neg_dx st_sum 3 = to_float 2" "pos_dx st_sum 3 = to_float 2"
  by (simp_all add: st_sum_def st_x2_def st_x_def with_label_simps neg_dx_def pos_dx_def
      unit_info_def)

lemma add_1_2:
  "case_ADD int_inst 1 2 (fone, to_float 2, fone, to_float 2) = Inr (to_float 3, to_float 3, 3)"
  by code_simp

lemma st_sum3_run_int:
  "dfsan_int_union int_inst example_cfg st_sum 1 3 1 2 0 11 None = Inr (st_sum3, 4)"
proof -
  have sw: "int_switch int_inst example_cfg st_sum 3 1 2 0 11 None
      (neg_dx st_sum 1, neg_dx st_sum 3, pos_dx st_sum 1, pos_dx st_sum 3) =
      Inr (st_sum, to_float 3, to_float 3, 3)"
    by (simp add: int_switch_ADD ADD_def st_sum_facts add_1_2)
  have "dfsan_int_union int_inst example_cfg st_sum 1 3 1 2 0 11 None =
      store_union_label st_sum 1 3 11 (to_float 3) (to_float 3) None (Some 3)"
    by (rule int_union_new_eq [OF _ sw]) (simp_all add: st_sum_facts fone_facts)
  then show ?thesis
    by (simp add: store_union_label_with st_sum_facts st_sum3_def)
qed

lemma mul_1_4: "case_MUL int_inst 1 4 (fone, fzero, fone, fzero) = Inr (to_float 4, to_float 4, 4)"
  by code_simp

lemma st_mul_run_int:
  "dfsan_int_union int_inst example_cfg st_x 1 0 1 4 0 15 None = Inr (st_mul, 2)"
proof -
  have sw: "int_switch int_inst example_cfg st_x 0 1 4 0 15 None
      (neg_dx st_x 1, neg_dx st_x 0, pos_dx st_x 1, pos_dx st_x 0) =
      Inr (st_x, to_float 4, to_float 4, 4)"
    by (simp add: int_switch_MUL MUL_def st_x_facts mul_1_4)
  have "dfsan_int_union int_inst example_cfg st_x 1 0 1 4 0 15 None =
      store_union_label st_x 1 0 15 (to_float 4) (to_float 4) None (Some 4)"
    by (rule int_union_new_eq [OF _ sw]) (simp_all add: st_x_facts fone_facts)
  then show ?thesis
    by (simp add: store_union_label_with st_x_facts st_mul_def)
qed

lemma mul_7_1: "case_MUL int_inst 7 1 (fone, fzero, fone, fzero) = Inr (fone, fone, 7)"
  by code_simp

lemma reuse_mul_run_int:
  "dfsan_int_union int_inst example_cfg st_x 1 0 7 1 0 15 None = Inr (st_x, 1)"
proof -
  have sw: "int_switch int_inst example_cfg st_x 0 7 1 0 15 None
      (neg_dx st_x 1, neg_dx st_x 0, pos_dx st_x 1, pos_dx st_x 0) = Inr (st_x, fone, fone, 7)"
    by (simp add: int_switch_MUL MUL_def st_x_facts mul_7_1)
  show ?thesis
    by (rule int_union_reuse1_eq [OF _ _ sw])
      (simp_all add: st_x_facts fone_facts example_cfg_def)
qed

lemma opcode_numbers:
  "unat (11 :: 16 word) = ADD" "unat (13 :: 16 word) = SUB" "unat (15 :: 16 word) = MUL"
  by (simp_all add: ADD_def SUB_def MUL_def)

subsection \<open>The loop of \<open>__dfsan_set_label\<close>\<close>

lemma set_label_loop_apply:
  "set_label_loop label p n sh i = (if p \<le> i \<and> i < p + n then label else sh i)"
proof (induction n arbitrary: p sh)
  case 0
  show ?case
    by auto
next
  case (Suc n)
  have eq: "\<not> Suc p \<le> i \<Longrightarrow> p \<le> i \<Longrightarrow> i = p"
    by arith
  show ?case
    unfolding set_label_loop.simps Suc.IH by (auto dest: eq)
qed

lemma set_label_loop_same:
  assumes same: "\<And>i. i < n \<Longrightarrow> sh (p + i) = label"
  shows "set_label_loop label p n sh = sh"
proof (rule ext)
  fix i
  show "set_label_loop label p n sh i = sh i"
  proof (cases "p \<le> i \<and> i < p + n")
    case True
    then have "i - p < n" and "p + (i - p) = i"
      by auto
    with same [of "i - p"] have "sh i = label"
      by simp
    with True show ?thesis
      by (auto simp: set_label_loop_apply)
  next
    case False
    then show ?thesis
      by (auto simp: set_label_loop_apply)
  qed
qed

subsection \<open>Division by zero\<close>

lemma feq_nan: "\<not> feq FNaN x" "\<not> feq x FNaN"
  by (cases x; simp add: feq_def)+

lemma float_union_new_eq:
  assumes "l1 \<noteq> 0 \<or> l2 \<noteq> 0"
    and "float_switch T cfg s l2 x1 x2 ret_addr opcode location
           (neg_dx s l1, neg_dx s l2, pos_dx s l1, pos_dx s l2) = Inr (s1, nd, pd)"
    and "\<not> (reuse_labels cfg \<and> is_zero (neg_dx s l1) \<and> is_zero (pos_dx s l1)
            \<and> is_zero (neg_dx s l2) \<and> is_zero (pos_dx s l2))"
    and "l1 = 0 \<or> \<not> (feq pd (pos_dx s l1) \<and> feq nd (neg_dx s l1))"
    and "l2 = 0 \<or> \<not> (feq pd (pos_dx s l2) \<and> feq nd (neg_dx s l2))"
  shows "dfsan_float_union T cfg s l1 l2 x1 x2 ret_addr opcode location =
           store_union_label s1 l1 l2 (ucast opcode) nd pd location None"
  using assms by (auto simp: dfsan_float_union_def input_derivs_def feq_fzero)

lemma int_union_fresh_eq:
  assumes "l1 \<noteq> 0 \<or> l2 \<noteq> 0"
    and "int_switch inst cfg s l2 x1 x2 ret_addr opcode location
           (neg_dx s l1, neg_dx s l2, pos_dx s l1, pos_dx s l2) = Inr (s1, nd, pd, fv)"
    and "\<not> (reuse_labels cfg \<and> is_zero (neg_dx s l1) \<and> is_zero (pos_dx s l1)
            \<and> is_zero (neg_dx s l2) \<and> is_zero (pos_dx s l2))"
    and "l1 = 0 \<or> \<not> (feq pd (pos_dx s l1) \<and> feq nd (neg_dx s l1))"
    and "l2 = 0 \<or> \<not> (feq pd (pos_dx s l2) \<and> feq nd (neg_dx s l2))"
  shows "dfsan_int_union inst cfg s l1 l2 x1 x2 ret_addr opcode location =
           store_union_label s1 l1 l2 opcode nd pd location (Some fv)"
  using assms by (auto simp: dfsan_int_union_def input_derivs_def feq_fzero)

lemma float_union_early_eq:
  assumes "l1 \<noteq> 0" "reuse_labels cfg" "is_zero (neg_dx s l1)" "is_zero (pos_dx s l1)"
    "is_zero (neg_dx s l2)" "is_zero (pos_dx s l2)"
  shows "dfsan_float_union T cfg s l1 l2 x1 x2 ret_addr opcode location = Inr (s, l1)"
  using assms by (simp add: dfsan_float_union_def input_derivs_def feq_fzero)

lemma record_divisor_ok:
  assumes "l2 = 0 \<or> gr_mode_perf cfg \<or> unat (arg_index s) < FUNC_ARGS_SIZE"
  shows "\<exists>s1. record_divisor cfg s l2 ret_addr inst_id v location = Inr s1
    \<and> last_label s1 = last_label s \<and> label_info s1 = label_info s"
  using assms by (auto simp: record_divisor_def record_arg_def Let_def)

lemma float_switch_FDIV_zero:
  assumes "unat opcode = FDIV" "is_zero x2"
  shows "float_switch T cfg s l2 x1 x2 ret_addr opcode location dx =
     ebind (record_divisor cfg s l2 ret_addr 19 (fcvt binary32 x2) location)
       (\<lambda>s1. Inr (s1, FNaN, FNaN))"
  using assms
  by (cases dx)
    (simp add: float_switch_def FDIV_def FADD_def FSUB_def FMUL_def fne_def feq_fzero)

lemma int_switch_SDIV_zero:
  assumes "unat opcode = SDIV" "ndebug cfg"
  shows "int_switch inst cfg s l2 x1 0 ret_addr opcode location dx =
     ebind (record_divisor cfg s l2 ret_addr 18 (to_float 0) location)
       (\<lambda>s1. Inr (s1, FNaN, FNaN, - 1))"
  using assms
  by (cases dx) (simp add: int_switch_def SDIV_def ADD_def SUB_def MUL_def case_SDIV_def)

lemma store_union_label_ok:
  assumes "last_label s + 1 \<noteq> kInitializingLabel"
  shows "\<exists>s'. store_union_label s l1 l2 opcode nd pd location fv = Inr (s', last_label s + 1)
    \<and> li_neg_dydx (label_info s' (last_label s + 1)) = nd
    \<and> li_pos_dydx (label_info s' (last_label s + 1)) = pd"
  using assms by (simp add: store_union_label_eq)

lemma is_nan_FNaN: "is_nan FNaN"
  by (simp add: is_nan_def)

lemma sub_3_3: "case_SUB int_inst 3 3 (fone, fone, fone, fone) = Inr (fzero, fzero, 0)"
  by code_simp

lemma zero_one: "\<not> feq fzero fone"
  by code_simp

lemma st_diff_run_int:
  "dfsan_int_union int_inst example_cfg st_x 1 1 3 3 0 13 None = Inr (st_diff, 2)"
proof -
  have sw: "int_switch int_inst example_cfg st_x 1 3 3 0 13 None
      (neg_dx st_x 1, neg_dx st_x 1, pos_dx st_x 1, pos_dx st_x 1) = Inr (st_x, fzero, fzero, 0)"
    by (simp add: int_switch_SUB SUB_def st_x_facts sub_3_3)
  have "dfsan_int_union int_inst example_cfg st_x 1 1 3 3 0 13 None =
      store_union_label st_x 1 1 13 fzero fzero None (Some 0)"
    by (rule int_union_new_eq [OF _ sw]) (simp_all add: st_x_facts fone_facts zero_one)
  then show ?thesis
    by (simp add: store_union_label_with st_x_facts st_diff_def)
qed

lemma st_diff_facts:
  "neg_dx st_diff 2 = fzero" "pos_dx st_diff 2 = fzero"
  "neg_dx st_diff 0 = fzero" "pos_dx st_diff 0 = fzero"
  "li_neg_dydx (label_info st_diff 2) = fzero" "li_pos_dydx (label_info st_diff 2) = fzero"
  by (simp_all add: st_diff_def with_label_simps neg_dx_def pos_dx_def)

lemma release_cfg_simps:
  "reuse_labels release_cfg" "ndebug release_cfg" "\<not> gr_mode_perf release_cfg"
  by (simp_all add: release_cfg_def example_cfg_def)

text \<open>With assertions compiled in, the \<open>assert(false)\<close> of the \<open>SDIV\<close> case ends the
  run.\<close>

lemma sdiv_zero_asserts:
  "dfsan_int_union int_inst example_cfg st_x 1 0 5 0 0 18 None =
     Inl AssertionFailed"
  by (simp add: dfsan_int_union_def input_derivs_def st_x_facts fone_facts feq_fzero example_cfg_def
     int_switch_def SDIV_def ADD_def SUB_def MUL_def case_SDIV_def record_divisor_def)


subsection \<open>The loop of \<open>__dfsan_union_load\<close>\<close>

lemma word_next_unat:
  fixes i n :: "'a::len word"
  assumes "i < n"
  shows "unat (i + 1) = Suc (unat i)"
proof -
  from assms have "i \<noteq> - 1"
    by (metis word_order.extremum_strict)
  then have "1 + i \<noteq> 0"
    by (metis add.commute add_eq_0_iff2)
  then have "unat (1 + i) = Suc (unat i)"
    by (rule unatSuc)
  then show ?thesis
    by (simp add: add.commute)
qed

lemma died_is_error:
  "\<exists>e. (case x of Inl e \<Rightarrow> Inl e | Inr r \<Rightarrow> Inl c) = Inl e"
  by (cases x) simp_all

lemma union_load_loop_same:
  assumes "i \<le> n"
    and "\<forall>j. unat i \<le> j \<and> j < unat n \<longrightarrow> shadow s (ls + j) = label"
  shows "union_load_loop cfg s ls n i label = Inr label"
  using assms
proof (induction cfg s ls n i label rule: union_load_loop.induct)
  case (1 cfg s ls n i label)
  show ?case
  proof (cases "i = n")
    case True
    then show ?thesis
      by (subst union_load_loop.simps) simp
  next
    case False
    with "1.prems"(1) have less: "i < n"
      by simp
    then have next_unat: "unat (i + 1) = Suc (unat i)"
      by (rule word_next_unat)
    from less have "unat i < unat n"
      by (simp add: word_less_nat_alt)
    with "1.prems"(2) have here: "shadow s (ls + unat i) = label"
      by simp
    from less next_unat have le: "i + 1 \<le> n"
      by (simp add: word_le_nat_alt word_less_nat_alt)
    have "union_load_loop cfg s ls n (i + 1) label = Inr label"
      using False here le "1.prems"(2) next_unat
      by (intro "1.IH") auto
    with False here show ?thesis
      by (subst union_load_loop.simps) simp
  qed
qed

lemma union_load_loop_differ:
  assumes "i \<le> n"
    and "\<exists>j. unat i \<le> j \<and> j < unat n \<and> shadow s (ls + j) \<noteq> label"
  shows "\<exists>e. union_load_loop cfg s ls n i label = Inl e"
  using assms
proof (induction cfg s ls n i label rule: union_load_loop.induct)
  case (1 cfg s ls n i label)
  from "1.prems"(2) have "unat i < unat n"
    by auto
  then have less: "i < n" and ne: "i \<noteq> n"
    by (auto simp: word_less_nat_alt)
  then have next_unat: "unat (i + 1) = Suc (unat i)"
    by (simp add: word_next_unat)
  show ?case
  proof (cases "shadow s (ls + unat i) = label")
    case False
    with ne show ?thesis
      by (subst union_load_loop.simps) (simp add: died_is_error)
  next
    case True
    from less next_unat have le: "i + 1 \<le> n"
      by (simp add: word_le_nat_alt word_less_nat_alt)
    from "1.prems"(2) obtain j where j: "unat i \<le> j" "j < unat n" "shadow s (ls + j) \<noteq> label"
      by blast
    with True have "j \<noteq> unat i"
      by auto
    with j next_unat have "\<exists>j. unat (i + 1) \<le> j \<and> j < unat n \<and> shadow s (ls + j) \<noteq> label"
      by (intro exI [of _ j]) simp
    with ne True le have "\<exists>e. union_load_loop cfg s ls n (i + 1) label = Inl e"
      by (intro "1.IH") auto
    with ne True show ?thesis
      by (subst union_load_loop.simps) simp
  qed
qed

lemma shadow_set_label:
  "shadow (dfsan_set_label smask s label addr sz) i =
     (if shadow_for smask addr \<le> i \<and> i < shadow_for smask addr + unat sz
      then label else shadow s i)"
  by (simp add: dfsan_set_label_def uu_dfsan_set_label_def set_label_loop_apply)

lemma set_label_keeps:
  "last_label (dfsan_set_label smask s label addr sz) = last_label s"
  "label_info (dfsan_set_label smask s label addr sz) = label_info s"
  by (simp_all add: dfsan_set_label_def uu_dfsan_set_label_def)

lemma shadow_for_all: "shadow_for (- 1) a = unat a"
  by (simp add: shadow_for_def)

lemma st_mixed_facts:
  "last_label st_mixed = 2" "neg_dx st_mixed 1 = fone" "pos_dx st_mixed 1 = fone"
  "neg_dx st_mixed 2 = fone" "pos_dx st_mixed 2 = fone"
  "shadow st_mixed 100 = 1" "shadow st_mixed 101 = 2"
  using st_x2_facts
  by (simp_all add: st_mixed_def neg_dx_def pos_dx_def set_label_keeps shadow_set_label
      shadow_for_all)

lemma int_switch_no_case:
  "int_switch inst cfg s l2 x1 x2 ret_addr 0 location dx = Inr (s, case_default cfg)"
  by (simp add: int_switch_def ADD_def SUB_def MUL_def SDIV_def UREM_def SREM_def SHL_def
      LSHR_def ASHR_def AND_def OR_def XOR_def GETELEMENTPTRT_def SELECT_def)

lemma st_mixed_union:
  "\<exists>r. dfsan_union example_cfg st_mixed 1 2 0 0 0 0 None = Inr r"
proof -
  have sw: "int_switch int_inst example_cfg st_mixed 2 (sint (0 :: 32 word)) (sint (0 :: 32 word))
      0 0 None (neg_dx st_mixed 1, neg_dx st_mixed 2, pos_dx st_mixed 1, pos_dx st_mixed 2) =
      Inr (st_mixed, fzero, fzero, - 1)"
    by (simp add: int_switch_no_case case_default_def example_cfg_def)
  have "dfsan_int_union int_inst example_cfg st_mixed 1 2 (sint (0 :: 32 word))
      (sint (0 :: 32 word)) 0 0 None =
      store_union_label st_mixed 1 2 0 fzero fzero None (Some (- 1))"
    by (rule int_union_fresh_eq [OF _ sw]) (simp_all add: st_mixed_facts fone_facts zero_one)
  then show ?thesis
    by (simp add: dfsan_union_def store_union_label_eq st_mixed_facts kInitializingLabel_def)
qed

subsection \<open>The state of the example program\<close>

lemma st_y_reachable: "reachable example_cfg st_y"
proof -
  have "reachable example_cfg (dfsan_flush dfsan_init)"
    by (intro reach_flush reach_init)
  then have "reachable example_cfg st_x"
    using st_x_run by (rule reach_create)
  then show ?thesis
    by (rule reach_int_union [OF _ _ _ st_y_run_int]) (simp_all add: st_x_facts)
qed

subsection \<open>The sampling loops\<close>













subsection \<open>Evaluation of floating-point and integer terms\<close>

lemma bitlen_numeral:
  "bitlen 0 = 0"
  "bitlen 1 = 1"
  "bitlen (Suc 0) = 1"
  "bitlen (numeral Num.One) = 1"
  "bitlen (numeral (Num.Bit0 n)) = bitlen (numeral n) + 1"
  "bitlen (numeral (Num.Bit1 n)) = bitlen (numeral n) + 1"
proof -
  show "bitlen 0 = 0"
    by (simp add: bitlen.simps)
  show one: "bitlen 1 = 1"
    by (subst bitlen.simps, subst bitlen.simps) simp
  then show "bitlen (numeral Num.One) = 1" and "bitlen (Suc 0) = 1"
    by simp_all
  show "bitlen (numeral (Num.Bit0 n)) = bitlen (numeral n) + 1"
    by (subst bitlen.simps) simp
  show "bitlen (numeral (Num.Bit1 n)) = bitlen (numeral n) + 1"
    by (subst bitlen.simps) simp
qed

lemmas fp_eval = fround_def fround_div_def fadd_def fsub_def fmul_def fdiv_def flt_def fgt_def
  feq_def fneg_def scaled_def fp_of_int_def to_float_def ftrunc_def c_of_fp_def binary32_def
  binary64_def fzero_def fone_def Let_def bitlen_numeral in_range_def ccast_def conv_def
  promote_def uac_def c_arith_def c_add_def c_sub_def c_and_def c_or_def near_zero_def
  eps_lit_def cvttss2si_def


lemma scale_unit:
  "fmul binary32 (to_float 1) fone = to_float 1" "fmul binary32 (to_float 2) fone = to_float 2"
  "fmul binary32 (to_float 3) fone = to_float 3" "fmul binary32 (to_float 4) fone = to_float 4"
  "fmul binary32 (to_float 1) fzero = fzero" "fmul binary32 (to_float 2) fzero = fzero"
  "fmul binary32 (to_float 3) fzero = fzero" "fmul binary32 (to_float 4) fzero = fzero"
  by (simp_all add: fp_eval)

lemma long_of_float:
  "c_of_fp S64 (to_float 1) = Inr (S64, 1)" "c_of_fp S64 (to_float 2) = Inr (S64, 2)"
  "c_of_fp S64 (to_float 3) = Inr (S64, 3)" "c_of_fp S64 (to_float 4) = Inr (S64, 4)"
  "c_of_fp S64 fzero = Inr (S64, 0)"
  by (simp_all add: fp_eval)

lemma near_zero_values:
  "near_zero fzero" "\<not> near_zero (to_float 4)" "\<not> near_zero (to_float 2)"
  "\<not> near_zero (fneg fone)"
  by (simp_all add: fp_eval)

lemma quotients:
  "fdiv binary32 (to_float 0) (to_float 1) = fzero"
  "fdiv binary32 (to_float 0) (to_float 2) = fzero"
  "fdiv binary32 (to_float 4) (to_float 1) = to_float 4"
  "fdiv binary32 (to_float 4) (to_float 2) = to_float 2"
  "fdiv binary32 (to_float 4) (to_float 4) = fone"
  "fdiv binary32 (to_float (- 4)) (to_float 4) = fneg fone"
  "\<not> feq (fdiv binary32 (to_float 4) (to_float 3)) fone"
  by (simp_all add: fp_eval)

lemma and_operands:
  "c_and (S32, 4) (S32, 4) = Inr (S32, 4)" "conv S64 (S32, 4) = (S64, 4)" "ccast S32 4 = 4"
  "c_sub (S32, 4) (S64, 0) = Inr (S64, 4)" "c_sub (S32, 4) (S64, 1) = Inr (S64, 3)"
  "c_sub (S32, 4) (S64, 2) = Inr (S64, 2)" "c_sub (S32, 4) (S64, 4) = Inr (S64, 0)"
  "c_add (S32, 4) (S64, 0) = Inr (S64, 4)" "c_add (S32, 4) (S64, 1) = Inr (S64, 5)"
  "c_add (S32, 4) (S64, 2) = Inr (S64, 6)" "c_add (S32, 4) (S64, 4) = Inr (S64, 8)"
  "c_and (S64, 3) (S64, 4) = Inr (S64, 0)" "c_and (S64, 2) (S64, 4) = Inr (S64, 0)"
  "c_and (S64, 0) (S64, 4) = Inr (S64, 0)" "c_and (S64, 5) (S64, 4) = Inr (S64, 4)"
  "c_and (S64, 6) (S64, 4) = Inr (S64, 4)" "c_and (S64, 8) (S64, 4) = Inr (S64, 0)"
  "conv S64 (S64, 0) = (S64, 0)" "conv S64 (S64, 4) = (S64, 4)"
  "c_sub (S64, 4) (S64, 0) = Inr (S64, 4)" "c_sub (S64, 4) (S64, 4) = Inr (S64, 0)"
  "c_sub (S64, 0) (S64, 4) = Inr (S64, - 4)"
  by (simp_all add: fp_eval)

lemma or_operands:
  "c_or (S32, 1) (S32, 3) = Inr (S32, 3)" "conv S64 (S32, 3) = (S64, 3)" "ccast S32 3 = 3"
  "c_sub (S32, 3) (S64, 0) = Inr (S64, 3)" "c_add (S32, 3) (S64, 0) = Inr (S64, 3)"
  "c_sub (S32, 1) (S64, 1) = Inr (S64, 0)" "c_sub (S32, 1) (S64, 2) = Inr (S64, - 1)"
  "c_sub (S32, 1) (S64, 3) = Inr (S64, - 2)" "c_sub (S32, 1) (S64, 4) = Inr (S64, - 3)"
  "c_add (S32, 1) (S64, 1) = Inr (S64, 2)" "c_add (S32, 1) (S64, 2) = Inr (S64, 3)"
  "c_add (S32, 1) (S64, 3) = Inr (S64, 4)" "c_add (S32, 1) (S64, 4) = Inr (S64, 5)"
  "c_or (S64, 0) (S64, 3) = Inr (S64, 3)" "c_or (S64, - 1) (S64, 3) = Inr (S64, - 1)"
  "c_or (S64, - 2) (S64, 3) = Inr (S64, - 1)" "c_or (S64, - 3) (S64, 3) = Inr (S64, - 1)"
  "c_or (S64, 2) (S64, 3) = Inr (S64, 3)" "c_or (S64, 3) (S64, 3) = Inr (S64, 3)"
  "c_or (S64, 4) (S64, 3) = Inr (S64, 7)" "c_or (S64, 5) (S64, 3) = Inr (S64, 7)"
  "conv S64 (S64, 3) = (S64, 3)" "conv S64 (S64, - 1) = (S64, - 1)"
  "conv S64 (S64, 7) = (S64, 7)"
  "c_sub (S64, 3) (S64, 3) = Inr (S64, 0)" "c_sub (S64, 3) (S64, - 1) = Inr (S64, 4)"
  "c_sub (S64, 7) (S64, 3) = Inr (S64, 4)"
  by (simp_all add: fp_eval)

lemmas sample_eval = fd_sample_def perturbed_def scale_unit long_of_float near_zero_values
  quotients and_operands or_operands







lemma and_4_4_last:
  "perturbed S64 c_add c_and (S32, 4) (S32, 4) fone fzero 4 = Inr (S64, 0)"
  by (simp add: sample_eval)




subsection \<open>A call with an operand label that was never handed out\<close>

lemma st_x_unused: "neg_dx st_x 7 = fzero" "pos_dx st_x 7 = fzero"
  by (simp_all add: st_x_def with_label_simps neg_dx_def pos_dx_def dfsan_flush_def
      zero_label_info_def)

lemma mul_3_3:
  "case_MUL int_inst 3 3 (fone, fzero, fone, fzero) = Inr (to_float 3, to_float 3, 9)"
proof -
  have "fadd binary32 (fmul binary32 (to_float 3) fzero) (fmul binary32 (to_float 3) fone) =
      to_float 3"
    by (simp add: fp_eval)
  moreover have "ccast S32 (3 * 3) = 9"
    by (simp add: ccast_def)
  ultimately show ?thesis
    by (simp only: case_MUL_eq)
qed

lemma three_not_zero: "\<not> feq (to_float 3) fzero"
  by (simp add: fp_eval)

lemma st_wild_run_int:
  "dfsan_int_union int_inst example_cfg st_x 1 7 3 3 0 15 None = Inr (st_wild, 2)"
proof -
  have sw: "int_switch int_inst example_cfg st_x 7 3 3 0 15 None
      (neg_dx st_x 1, neg_dx st_x 7, pos_dx st_x 1, pos_dx st_x 7) =
      Inr (st_x, to_float 3, to_float 3, 9)"
    by (simp add: int_switch_MUL MUL_def st_x_facts st_x_unused mul_3_3)
  have "dfsan_int_union int_inst example_cfg st_x 1 7 3 3 0 15 None =
      store_union_label st_x 1 7 15 (to_float 3) (to_float 3) None (Some 9)"
    by (rule int_union_new_eq [OF _ sw])
      (simp_all add: st_x_facts st_x_unused fone_facts three_not_zero)
  then show ?thesis
    by (simp add: store_union_label_with st_x_facts st_wild_def)
qed

subsection \<open>Results and traps of the samples\<close>





















section \<open>Properties\<close>

subsection \<open>Untainted operands\<close>

text \<open>
  Claim C1.  With both input labels 0, every propagation function returns label 0 at
  once, whatever the opcode and the operand values: the state is returned as it was, so
  no label is allocated and no entry of the label table is written.  This holds for the
  integer macro at each of its instantiations, for the floating-point macro at both
  formats, and for \<open>__dfsan_union_unsupported_type\<close>.
\<close>

theorem zero_short_circuit:
  "dfsan_int_union inst cfg s 0 0 x1 x2 ret_addr opcode location = Inr (s, 0)
   \<and> dfsan_float_union T cfg s 0 0 y1 y2 ret_addr fopcode location = Inr (s, 0)
   \<and> dfsan_union_unsupported_type s 0 0 opcode location = Inr (s, 0)
   \<and> dfsan_union_byte cfg s 0 0 b1 b2 ret_addr opcode location = Inr (s, 0)
   \<and> dfsan_union_short cfg s 0 0 h1 h2 ret_addr opcode location = Inr (s, 0)
   \<and> dfsan_union cfg s 0 0 w1 w2 ret_addr opcode location = Inr (s, 0)
   \<and> dfsan_union_long cfg s 0 0 d1 d2 ret_addr opcode location = Inr (s, 0)
   \<and> dfsan_union_float cfg s 0 0 y1 y2 ret_addr fopcode location = Inr (s, 0)
   \<and> dfsan_union_double cfg s 0 0 y1 y2 ret_addr fopcode location = Inr (s, 0)"
  by (simp add: dfsan_int_union_def dfsan_float_union_def dfsan_union_unsupported_type_def
      dfsan_union_byte_def dfsan_union_short_def dfsan_union_def dfsan_union_long_def
      dfsan_union_float_def dfsan_union_double_def)

theorem zero_short_circuit_witness:
  "dfsan_union \<lparr>reuse_labels = True, samples = 3, gep_default = False,
       select_default = False, default_nan = False, gr_mode_perf = False, ndebug = False\<rparr>
     dfsan_init 0 0 7 0 0 18 None = Inr (dfsan_init, 0)"
  using zero_short_circuit by blast

subsection \<open>Writing labels to shadow memory\<close>

text \<open>
  Claim C10.  After \<open>dfsan_set_label(label, addr, size)\<close> the \<open>size\<close> shadow slots from
  \<open>shadow_for(addr)\<close> on hold \<open>label\<close>, every other slot holds what it held, and nothing
  but shadow memory changes.  When each of those slots already holds \<open>label\<close>, no slot
  is written and the state is the one before the call.
\<close>

theorem set_label_effect:
  "shadow (dfsan_set_label smask s label addr sz) =
     (\<lambda>i. if shadow_for smask addr \<le> i \<and> i < shadow_for smask addr + unat sz
          then label else shadow s i)
   \<and> dfsan_set_label smask s label addr sz =
       s\<lparr>shadow := shadow (dfsan_set_label smask s label addr sz)\<rparr>
   \<and> ((\<forall>i < unat sz. shadow s (shadow_for smask addr + i) = label)
        \<longrightarrow> dfsan_set_label smask s label addr sz = s)"
  by (auto simp: dfsan_set_label_def uu_dfsan_set_label_def set_label_loop_apply
      set_label_loop_same)

theorem set_label_effect_witness:
  "shadow (dfsan_set_label (- 1) dfsan_init 5 100 2) 100 = 5
   \<and> shadow (dfsan_set_label (- 1) dfsan_init 5 100 2) 101 = 5
   \<and> shadow (dfsan_set_label (- 1) dfsan_init 5 100 2) 102 = 0
   \<and> dfsan_set_label (- 1) dfsan_init 0 100 2 = dfsan_init"
proof -
  have same: "\<forall>i < unat (2 :: 64 word). shadow dfsan_init (shadow_for (- 1) 100 + i) = 0"
    by (simp add: dfsan_init_def)
  have base: "shadow_for (- 1) 100 = 100"
    by (simp add: shadow_for_def)
  from set_label_effect [of "- 1" dfsan_init 5 100 2] base
  have "shadow (dfsan_set_label (- 1) dfsan_init 5 100 2) =
      (\<lambda>i. if 100 \<le> i \<and> i < 102 then 5 else shadow dfsan_init i)"
    by simp
  moreover from set_label_effect [of "- 1" dfsan_init 0 100 2] same
  have "dfsan_set_label (- 1) dfsan_init 0 100 2 = dfsan_init"
    by blast
  ultimately show ?thesis
    by (simp add: dfsan_init_def)
qed

subsection \<open>The provenance graph\<close>

text \<open>
  Claim C6, as amended.  In every state reached from the initial one by label creation,
  resets, writes of labels to shadow memory, and propagation calls whose operand
  labels are 0 or labels the table has handed out since the last reset (labels up to
  \<open>last_label\<close>), each allocated label \<open>l > 0\<close> has parents \<open>l1 < l\<close> and \<open>l2 < l\<close>; hence
  the parent relation on labels is acyclic.  The propagation functions store the
  operand labels as they are given, without a check.
\<close>

theorem dag_invariant:
  assumes "reachable cfg s"
  shows "(\<forall>l. 0 < l \<and> l \<le> last_label s \<longrightarrow>
            li_l1 (label_info s l) < l \<and> li_l2 (label_info s l) < l)
         \<and> acyclic (parent_rel s)"
  using reachable_dag_inv [OF assms] parent_rel_acyclic [of s] by (simp add: dag_inv_def)

theorem dag_invariant_witness:
  "reachable example_cfg st_y \<and> last_label st_y = 2
   \<and> li_l1 (label_info st_y 2) < 2 \<and> li_l2 (label_info st_y 2) < 2
   \<and> acyclic (parent_rel st_y)"
proof -
  have "reachable example_cfg (dfsan_flush dfsan_init)"
    by (intro reach_flush reach_init)
  then have "reachable example_cfg st_x"
    using st_x_run by (rule reach_create)
  then have r: "reachable example_cfg st_y"
    by (rule reach_int_union [OF _ _ _ st_y_run_int]) (simp_all add: st_x_facts)
  from dag_invariant [OF r] have
    "0 < (2 :: dfsan_label) \<and> 2 \<le> last_label st_y \<longrightarrow>
       li_l1 (label_info st_y 2) < 2 \<and> li_l2 (label_info st_y 2) < 2"
    and "acyclic (parent_rel st_y)"
    by blast+
  with r show ?thesis
    by (simp add: st_y_facts)
qed

text \<open>
  The claim as stated fails for a call with an operand label the table has not handed
  out: after a reset and the creation of label 1, multiplying with an operand that
  carries label 7 allocates label 2 with the second parent 7.
\<close>

theorem dag_invariant_counterexample:
  "dfsan_create_label (dfsan_flush dfsan_init) (Some ''x'') = Inr (st_x, 1)
   \<and> unat (15 :: 16 word) = MUL
   \<and> dfsan_union example_cfg st_x 1 7 3 3 0 15 None = Inr (st_wild, 2)
   \<and> last_label st_wild = 2
   \<and> li_l2 (label_info st_wild 2) = 7
   \<and> \<not> li_l2 (label_info st_wild 2) < 2
   \<and> (7, 2) \<in> parent_rel st_wild"
  using st_x_run st_wild_run_int
  by (simp add: dfsan_union_def st_wild_def with_label_simps MUL_def parent_rel_def)

subsection \<open>Capacity of the label table\<close>

text \<open>
  Claim C5, as amended.  Label \<open>0xFFFF\<close> is reserved (\<open>kInitializingLabel\<close>) and label 0
  means "no taint", so a freshly reset table hands out the labels 1 to 65534: any
  sequence of at most \<open>2^16 - 2 = 65534\<close> allocations (by \<open>dfsan_create_label\<close> or at
  the end of a propagation function) succeeds, the \<open>i\<close>-th returning label \<open>i\<close>, and
  after exactly 65534 of them the next allocation ends the process with "out of
  labels".
\<close>

theorem label_capacity:
  assumes "length rs \<le> 65534"
  shows "(\<exists>s'. allocate_all (dfsan_flush s) rs = Inr s' \<and> dfsan_get_label_count s' = length rs)
       \<and> (\<forall>i < length rs. \<exists>s1 s2. allocate_all (dfsan_flush s) (take i rs) = Inr s1
              \<and> allocate s1 (rs ! i) = Inr (s2, of_nat (Suc i)))
       \<and> (length rs = 65534 \<longrightarrow> allocate_all (dfsan_flush s) (rs @ [r]) = Inl OutOfLabels)"
proof -
  have z: "unat (last_label (dfsan_flush s)) = 0" and z': "last_label (dfsan_flush s) = 0"
    by (simp_all add: dfsan_flush_def)
  with assms have le: "unat (last_label (dfsan_flush s)) + length rs \<le> 65534"
    by simp
  from allocate_all_ok [OF le] z have ok:
    "\<exists>s'. allocate_all (dfsan_flush s) rs = Inr s' \<and> dfsan_get_label_count s' = length rs"
    by (simp add: dfsan_get_label_count_def)
  have each: "\<exists>s1 s2. allocate_all (dfsan_flush s) (take i rs) = Inr s1
      \<and> allocate s1 (rs ! i) = Inr (s2, of_nat (Suc i))" if "i < length rs" for i
    using allocate_all_labels [OF le that] by (simp add: z')
  have "allocate_all (dfsan_flush s) (rs @ [r]) = Inl OutOfLabels" if "length rs = 65534"
    by (rule allocate_all_exhausted) (simp_all add: z that)
  with ok each show ?thesis
    by blast
qed

theorem label_capacity_witness:
  "\<exists>s'. allocate_all (dfsan_flush dfsan_init)
        [ByCreate (Some ''x''), ByCombine 0 1 15 (to_float 4) (to_float 4) None (Some 4)] = Inr s'
      \<and> dfsan_get_label_count s' = 2"
proof -
  let ?rs = "[ByCreate (Some ''x''), ByCombine 0 1 15 (to_float 4) (to_float 4) None (Some 4)]"
  have "length ?rs \<le> 65534"
    by simp
  from label_capacity [OF this, of dfsan_init] obtain s' where
    "allocate_all (dfsan_flush dfsan_init) ?rs = Inr s'" "dfsan_get_label_count s' = length ?rs"
    by blast
  then have "allocate_all (dfsan_flush dfsan_init) ?rs = Inr s' \<and> dfsan_get_label_count s' = 2"
    by simp
  then show ?thesis
    by (rule exI)
qed

text \<open>The claim as stated fails: of \<open>2^16\<close> allocations after a reset, one is fatal.\<close>

theorem label_capacity_counterexample:
  "allocate_all (dfsan_flush dfsan_init) (replicate (2 ^ 16) (ByCreate None)) = Inl OutOfLabels"
  by (rule allocate_all_exhausted) (simp_all add: dfsan_flush_def)

subsection \<open>The linear rule\<close>

text \<open>
  Claim C2, as amended.  A call of the integer propagation function with opcode \<open>Add\<close>
  or \<open>Sub\<close> returns a label whenever the label table is not exhausted, whatever the
  operands: a sum or difference that overflows wraps around.  With an input label that
  is not 0, the label returned has derivatives that are, as values, the sum
  (difference) of the inputs' derivatives, an input label 0 contributing 0.  When the
  call allocates a label, that label records exactly these derivatives and the
  concrete value \<open>x1 + x2\<close> (\<open>x1 - x2\<close>) converted to the 32-bit \<open>int\<close> field \<open>f_val\<close>,
  which is \<open>x1 + x2\<close> itself whenever that fits.  With label reuse on, the call may
  instead return one of its input labels, whose entry, and so whose recorded value, it
  does not touch; with label reuse off it always allocates.
\<close>

theorem add_sub_rule:
  assumes "l1 \<noteq> 0 \<or> l2 \<noteq> 0"
  shows "((unat opcode = ADD \<or> unat opcode = SUB)
            \<and> last_label s + 1 \<noteq> kInitializingLabel \<longrightarrow>
            (\<exists>s' l. dfsan_int_union inst cfg s l1 l2 x1 x2 ret_addr opcode location =
                      Inr (s', l)))
       \<and> (dfsan_int_union inst cfg s l1 l2 x1 x2 ret_addr opcode location = Inr (s', l) \<longrightarrow>
            (unat opcode = ADD \<longrightarrow>
               propagated cfg s s' l
                 (fadd binary32 (neg_dx s l1) (neg_dx s l2))
                 (fadd binary32 (pos_dx s l1) (pos_dx s l2))
                 (ccast S32 (x1 + x2)))
          \<and> (unat opcode = SUB \<longrightarrow>
               propagated cfg s s' l
                 (fsub binary32 (neg_dx s l1) (neg_dx s l2))
                 (fsub binary32 (pos_dx s l1) (pos_dx s l2))
                 (ccast S32 (x1 - x2))))
       \<and> (in_range S32 (x1 + x2) \<longrightarrow> ccast S32 (x1 + x2) = x1 + x2)
       \<and> (in_range S32 (x1 - x2) \<longrightarrow> ccast S32 (x1 - x2) = x1 - x2)"
proof -
  have add: "propagated cfg s s' l
      (fadd binary32 (neg_dx s l1) (neg_dx s l2)) (fadd binary32 (pos_dx s l1) (pos_dx s l2))
      (ccast S32 (x1 + x2))"
    if op: "unat opcode = ADD"
      and u: "dfsan_int_union inst cfg s l1 l2 x1 x2 ret_addr opcode location = Inr (s', l)"
  proof (rule int_union_rule [OF u assms])
    fix s1 nd' pd' fv'
    assume "int_switch inst cfg s l2 x1 x2 ret_addr opcode location
          (neg_dx s l1, neg_dx s l2, pos_dx s l1, pos_dx s l2) = Inr (s1, nd', pd', fv')"
    then show "s1 = s \<and> nd' = fadd binary32 (neg_dx s l1) (neg_dx s l2)
      \<and> pd' = fadd binary32 (pos_dx s l1) (pos_dx s l2) \<and> fv' = ccast S32 (x1 + x2)"
      using case_ADD_result [of inst x1 x2 _ _ _ _ nd' pd' fv']
      by (auto simp: int_switch_ADD [OF op] ebind_eq_Inr)
  qed (rule fadd_zero_zero, assumption+)+
  have sub: "propagated cfg s s' l
      (fsub binary32 (neg_dx s l1) (neg_dx s l2)) (fsub binary32 (pos_dx s l1) (pos_dx s l2))
      (ccast S32 (x1 - x2))"
    if op: "unat opcode = SUB"
      and u: "dfsan_int_union inst cfg s l1 l2 x1 x2 ret_addr opcode location = Inr (s', l)"
  proof (rule int_union_rule [OF u assms])
    fix s1 nd' pd' fv'
    assume "int_switch inst cfg s l2 x1 x2 ret_addr opcode location
          (neg_dx s l1, neg_dx s l2, pos_dx s l1, pos_dx s l2) = Inr (s1, nd', pd', fv')"
    then show "s1 = s \<and> nd' = fsub binary32 (neg_dx s l1) (neg_dx s l2)
      \<and> pd' = fsub binary32 (pos_dx s l1) (pos_dx s l2) \<and> fv' = ccast S32 (x1 - x2)"
      using case_SUB_result [of inst x1 x2 _ _ _ _ nd' pd' fv']
      by (auto simp: int_switch_SUB [OF op] ebind_eq_Inr)
  qed (rule fsub_zero_zero, assumption+)+
  have returns: "\<exists>s' l. dfsan_int_union inst cfg s l1 l2 x1 x2 ret_addr opcode location =
      Inr (s', l)"
    if "unat opcode = ADD \<or> unat opcode = SUB" "last_label s + 1 \<noteq> kInitializingLabel"
    using that by (intro arith_union_returns) auto
  from add sub returns show ?thesis
    by (simp add: ccast_in_range)
qed

text \<open>Labels with derivatives \<open>(1, 1)\<close> and \<open>(2, 2)\<close> add up to a new label with
  \<open>(3, 3)\<close>; and the sum of \<open>INT_MAX\<close> and 1 is propagated as well.\<close>

theorem add_sub_rule_witness:
  "dfsan_int_union int_inst example_cfg st_sum 1 3 1 2 0 11 None = Inr (st_sum3, 4)
   \<and> unat (11 :: 16 word) = ADD \<and> last_label st_sum + 1 \<noteq> kInitializingLabel
   \<and> (\<exists>s' l. dfsan_int_union int_inst example_cfg st_sum 1 3 INT_MAX 1 0 11 None =
                Inr (s', l))
   \<and> neg_dx st_sum 1 = to_float 1 \<and> pos_dx st_sum 1 = to_float 1
   \<and> neg_dx st_sum 3 = to_float 2 \<and> pos_dx st_sum 3 = to_float 2
   \<and> li_neg_dydx (label_info st_sum3 4) = to_float 3
   \<and> li_pos_dydx (label_info st_sum3 4) = to_float 3
   \<and> li_f_val (label_info st_sum3 4) = 1 + 2"
proof -
  have nz: "(1 :: dfsan_label) \<noteq> 0 \<or> (3 :: dfsan_label) \<noteq> 0"
    by simp
  have moved: "last_label st_sum3 \<noteq> last_label st_sum"
    by (simp add: st_sum3_def st_sum_def with_label_simps)
  have room: "last_label st_sum + 1 \<noteq> kInitializingLabel"
    by (simp add: st_sum_facts kInitializingLabel_def)
  note at_sum = add_sub_rule [OF nz, where opcode = 11 and s = st_sum and inst = int_inst
      and cfg = example_cfg and ret_addr = 0 and location = None]
  from at_sum [where ?x1.0 = 1 and ?x2.0 = 2 and s' = st_sum3 and l = 4]
    st_sum3_run_int opcode_numbers(1)
  have p: "propagated example_cfg st_sum st_sum3 4
      (fadd binary32 (neg_dx st_sum 1) (neg_dx st_sum 3))
      (fadd binary32 (pos_dx st_sum 1) (pos_dx st_sum 3)) (ccast S32 (1 + 2))"
    and fits: "in_range S32 (1 + 2) \<longrightarrow> ccast S32 (1 + 2) = 1 + 2"
    by blast+
  from at_sum [where ?x1.0 = INT_MAX and ?x2.0 = 1 and s' = st_sum and l = 0]
    opcode_numbers(1) room
  have big: "\<exists>s' l. dfsan_int_union int_inst example_cfg st_sum 1 3 INT_MAX 1 0 11 None =
      Inr (s', l)"
    by blast
  from p fits moved have
    "li_neg_dydx (label_info st_sum3 4) = fadd binary32 (neg_dx st_sum 1) (neg_dx st_sum 3)"
    "li_pos_dydx (label_info st_sum3 4) = fadd binary32 (pos_dx st_sum 1) (pos_dx st_sum 3)"
    "li_f_val (label_info st_sum3 4) = 1 + 2"
    by (simp_all add: propagated_def in_range_def)
  moreover have "fone = to_float 1"
    by code_simp
  ultimately show ?thesis
    using st_sum3_run_int big room by (simp add: st_sum_facts fone_facts ADD_def)
qed

text \<open>
  The claim as stated fails for the recorded value: with label reuse on, adding the
  unlabelled 3 to the labelled 5 returns the input label, whose \<open>f_val\<close> is still 0.
\<close>

theorem add_rule_counterexample:
  "dfsan_create_label (dfsan_flush dfsan_init) (Some ''x'') = Inr (st_x, 1)
   \<and> unat (11 :: 16 word) = ADD
   \<and> dfsan_union example_cfg st_x 1 0 5 3 0 11 None = Inr (st_x, 1)
   \<and> li_f_val (label_info st_x 1) \<noteq> 5 + 3"
  using st_x_run reuse_add_run_int
  by (simp add: dfsan_union_def st_x_facts ADD_def)

subsection \<open>The product rule\<close>

text \<open>
  Claim C3, as amended.  A call with opcode \<open>Mul\<close> returns a label whenever the label
  table is not exhausted, whatever the operands: a product that overflows wraps
  around.  With an input label that is not 0, the label returned has derivatives that
  are, as values, \<open>x1 * dx2 + x2 * dx1\<close> on the neg and on the pos side (computed in
  \<open>float\<close>).  When the call allocates a label, that label records exactly these
  derivatives and the concrete value \<open>x1 * x2\<close> converted to the 32-bit \<open>int\<close> field.
  With label reuse on, the call may instead return an input label and leave its
  recorded value as it was.
\<close>

theorem mul_rule:
  assumes "l1 \<noteq> 0 \<or> l2 \<noteq> 0"
    and "unat opcode = MUL"
    and "in_range (Type inst) x1" "in_range (Type inst) x2"
  shows "(last_label s + 1 \<noteq> kInitializingLabel \<longrightarrow>
            (\<exists>s' l. dfsan_int_union inst cfg s l1 l2 x1 x2 ret_addr opcode location =
                      Inr (s', l)))
       \<and> (dfsan_int_union inst cfg s l1 l2 x1 x2 ret_addr opcode location = Inr (s', l) \<longrightarrow>
            propagated cfg s s' l
              (fadd binary32 (fmul binary32 (to_float x1) (neg_dx s l2))
                             (fmul binary32 (to_float x2) (neg_dx s l1)))
              (fadd binary32 (fmul binary32 (to_float x1) (pos_dx s l2))
                             (fmul binary32 (to_float x2) (pos_dx s l1)))
              (ccast S32 (x1 * x2)))
       \<and> (in_range S32 (x1 * x2) \<longrightarrow> ccast S32 (x1 * x2) = x1 * x2)"
proof -
  have rule: "propagated cfg s s' l
           (fadd binary32 (fmul binary32 (to_float x1) (neg_dx s l2))
                          (fmul binary32 (to_float x2) (neg_dx s l1)))
           (fadd binary32 (fmul binary32 (to_float x1) (pos_dx s l2))
                          (fmul binary32 (to_float x2) (pos_dx s l1)))
           (ccast S32 (x1 * x2))"
    if u: "dfsan_int_union inst cfg s l1 l2 x1 x2 ret_addr opcode location = Inr (s', l)"
  proof (rule int_union_rule [OF u assms(1)])
    fix s1 nd' pd' fv'
    assume "int_switch inst cfg s l2 x1 x2 ret_addr opcode location
          (neg_dx s l1, neg_dx s l2, pos_dx s l1, pos_dx s l2) = Inr (s1, nd', pd', fv')"
    then show "s1 = s
      \<and> nd' = fadd binary32 (fmul binary32 (to_float x1) (neg_dx s l2))
                            (fmul binary32 (to_float x2) (neg_dx s l1))
      \<and> pd' = fadd binary32 (fmul binary32 (to_float x1) (pos_dx s l2))
                            (fmul binary32 (to_float x2) (pos_dx s l1))
      \<and> fv' = ccast S32 (x1 * x2)"
      using case_MUL_result [of inst x1 x2 _ _ _ _ nd' pd' fv']
      by (auto simp: int_switch_MUL [OF assms(2)] ebind_eq_Inr)
  qed (rule product_zero [OF assms(3,4)], assumption+)+
  have returns: "\<exists>s' l. dfsan_int_union inst cfg s l1 l2 x1 x2 ret_addr opcode location =
      Inr (s', l)"
    if "last_label s + 1 \<noteq> kInitializingLabel"
    using assms(2) that by (intro arith_union_returns) auto
  from rule returns show ?thesis
    by (simp add: ccast_in_range)
qed

text \<open>A label with value 1 and derivatives \<open>(1, 1)\<close> times the unlabelled 4 gives a new
  label with derivatives \<open>(4, 4)\<close> and value 4; and \<open>65536 * 65536\<close> is propagated as
  well.\<close>

theorem mul_rule_witness:
  "dfsan_int_union int_inst example_cfg st_x 1 0 1 4 0 15 None = Inr (st_mul, 2)
   \<and> unat (15 :: 16 word) = MUL \<and> last_label st_x + 1 \<noteq> kInitializingLabel
   \<and> in_range (Type int_inst) 65536
   \<and> (\<exists>s' l. dfsan_int_union int_inst example_cfg st_x 1 0 65536 65536 0 15 None =
                Inr (s', l))
   \<and> neg_dx st_x 1 = to_float 1 \<and> pos_dx st_x 1 = to_float 1
   \<and> li_neg_dydx (label_info st_mul 2) = to_float 4
   \<and> li_pos_dydx (label_info st_mul 2) = to_float 4
   \<and> li_f_val (label_info st_mul 2) = 4"
proof -
  have nz: "(1 :: dfsan_label) \<noteq> 0 \<or> (0 :: dfsan_label) \<noteq> 0"
    by simp
  have r: "in_range (Type int_inst) 1" "in_range (Type int_inst) 4"
    and big: "in_range (Type int_inst) 65536"
    by (simp_all add: int_inst_def in_range_def)
  have moved: "last_label st_mul \<noteq> last_label st_x"
    by (simp add: st_mul_def st_x_def with_label_simps)
  have room: "last_label st_x + 1 \<noteq> kInitializingLabel"
    by (simp add: st_x_facts kInitializingLabel_def)
  from mul_rule [OF nz opcode_numbers(3) r, where s = st_x and cfg = example_cfg
      and ret_addr = 0 and location = None and s' = st_mul and l = 2] st_mul_run_int
  have p: "propagated example_cfg st_x st_mul 2
      (fadd binary32 (fmul binary32 (to_float 1) (neg_dx st_x 0))
                     (fmul binary32 (to_float 4) (neg_dx st_x 1)))
      (fadd binary32 (fmul binary32 (to_float 1) (pos_dx st_x 0))
                     (fmul binary32 (to_float 4) (pos_dx st_x 1)))
      (ccast S32 (1 * 4))"
    and fits: "in_range S32 (1 * 4) \<longrightarrow> ccast S32 (1 * 4) = 1 * 4"
    by blast+
  from mul_rule [OF nz opcode_numbers(3) big big, where s = st_x and cfg = example_cfg
      and ret_addr = 0 and location = None and s' = st_x and l = 0] room
  have wraps: "\<exists>s' l. dfsan_int_union int_inst example_cfg st_x 1 0 65536 65536 0 15 None =
      Inr (s', l)"
    by blast
  from p fits moved have
    "li_neg_dydx (label_info st_mul 2) =
       fadd binary32 (fmul binary32 (to_float 1) (neg_dx st_x 0))
                     (fmul binary32 (to_float 4) (neg_dx st_x 1))"
    "li_pos_dydx (label_info st_mul 2) =
       fadd binary32 (fmul binary32 (to_float 1) (pos_dx st_x 0))
                     (fmul binary32 (to_float 4) (pos_dx st_x 1))"
    "li_f_val (label_info st_mul 2) = 4"
    by (simp_all add: propagated_def in_range_def)
  moreover have "fone = to_float 1"
    "fadd binary32 (fmul binary32 (to_float 1) fzero) (fmul binary32 (to_float 4) fone) = to_float 4"
    by code_simp+
  ultimately show ?thesis
    using st_mul_run_int wraps room big by (simp add: st_x_facts MUL_def)
qed

text \<open>
  The claim as stated fails for the recorded value: with label reuse on, the labelled
  7 times the unlabelled 1 has the derivative of its input and returns the input
  label, whose \<open>f_val\<close> is still 0.
\<close>

theorem mul_rule_counterexample:
  "dfsan_create_label (dfsan_flush dfsan_init) (Some ''x'') = Inr (st_x, 1)
   \<and> unat (15 :: 16 word) = MUL
   \<and> dfsan_union example_cfg st_x 1 0 7 1 0 15 None = Inr (st_x, 1)
   \<and> li_f_val (label_info st_x 1) \<noteq> 7 * 1"
  using st_x_run reuse_mul_run_int
  by (simp add: dfsan_union_def st_x_facts MUL_def)


subsection \<open>Division by zero\<close>

text \<open>
  Claim C4.  A combine call with a divide opcode whose second concrete operand is zero
  and with a nonzero input label completes and produces a label whose derivatives are
  NaN.  This holds for \<open>FDIV\<close> in both floating-point instantiations, and for \<open>SDIV\<close>
  in a build without assertions, whenever the call reaches the \<open>switch\<close> and the tables
  have room: the inputs are not all of derivative zero under label reuse, the label
  counter has not reached the reserved label, and the argument log (written for a
  labelled divisor, unless in performance mode) is not full.  The call then allocates
  the next label, and both its derivatives are NaN.
\<close>

theorem division_by_zero:
  assumes "l1 \<noteq> 0 \<or> l2 \<noteq> 0"
    and "\<not> (reuse_labels cfg \<and> is_zero (neg_dx s l1) \<and> is_zero (pos_dx s l1)
            \<and> is_zero (neg_dx s l2) \<and> is_zero (pos_dx s l2))"
    and "last_label s + 1 \<noteq> kInitializingLabel"
    and "l2 = 0 \<or> gr_mode_perf cfg \<or> unat (arg_index s) < FUNC_ARGS_SIZE"
  shows "(unat fopcode = FDIV \<and> is_zero y2 \<longrightarrow>
            (\<exists>s'. dfsan_float_union T cfg s l1 l2 y1 y2 ret_addr fopcode location =
                     Inr (s', last_label s + 1)
                 \<and> is_nan (li_neg_dydx (label_info s' (last_label s + 1)))
                 \<and> is_nan (li_pos_dydx (label_info s' (last_label s + 1)))))
       \<and> (unat opcode = SDIV \<and> ndebug cfg \<longrightarrow>
            (\<exists>s'. dfsan_int_union inst cfg s l1 l2 x1 0 ret_addr opcode location =
                     Inr (s', last_label s + 1)
                 \<and> is_nan (li_neg_dydx (label_info s' (last_label s + 1)))
                 \<and> is_nan (li_pos_dydx (label_info s' (last_label s + 1)))))"
proof (intro conjI impI)
  assume "unat fopcode = FDIV \<and> is_zero y2"
  then have sw: "float_switch T cfg s l2 y1 y2 ret_addr fopcode location
      (neg_dx s l1, neg_dx s l2, pos_dx s l1, pos_dx s l2) =
      ebind (record_divisor cfg s l2 ret_addr 19 (fcvt binary32 y2) location)
        (\<lambda>s1. Inr (s1, FNaN, FNaN))"
    by (simp add: float_switch_FDIV_zero)
  from record_divisor_ok [OF assms(4)] obtain s1 where
    rec: "record_divisor cfg s l2 ret_addr 19 (fcvt binary32 y2) location = Inr s1"
    and same: "last_label s1 = last_label s"
    by blast
  from sw rec have sw1: "float_switch T cfg s l2 y1 y2 ret_addr fopcode location
      (neg_dx s l1, neg_dx s l2, pos_dx s l1, pos_dx s l2) = Inr (s1, FNaN, FNaN)"
    by simp
  have "dfsan_float_union T cfg s l1 l2 y1 y2 ret_addr fopcode location =
      store_union_label s1 l1 l2 (ucast fopcode) FNaN FNaN location None"
    by (rule float_union_new_eq [OF assms(1) sw1 assms(2)]) (simp_all add: feq_nan)
  moreover from assms(3) same have "last_label s1 + 1 \<noteq> kInitializingLabel"
    by simp
  from store_union_label_ok [OF this, of l1 l2 "ucast fopcode" FNaN FNaN location None]
  obtain s' where
    "store_union_label s1 l1 l2 (ucast fopcode) FNaN FNaN location None =
       Inr (s', last_label s1 + 1)"
    "li_neg_dydx (label_info s' (last_label s1 + 1)) = FNaN"
    "li_pos_dydx (label_info s' (last_label s1 + 1)) = FNaN"
    by blast
  ultimately show "\<exists>s'. dfsan_float_union T cfg s l1 l2 y1 y2 ret_addr fopcode location =
                     Inr (s', last_label s + 1)
                 \<and> is_nan (li_neg_dydx (label_info s' (last_label s + 1)))
                 \<and> is_nan (li_pos_dydx (label_info s' (last_label s + 1)))"
    using same by (auto simp: is_nan_FNaN)
next
  assume "unat opcode = SDIV \<and> ndebug cfg"
  then have sw: "int_switch inst cfg s l2 x1 0 ret_addr opcode location
      (neg_dx s l1, neg_dx s l2, pos_dx s l1, pos_dx s l2) =
      ebind (record_divisor cfg s l2 ret_addr 18 (to_float 0) location)
        (\<lambda>s1. Inr (s1, FNaN, FNaN, - 1))"
    by (simp add: int_switch_SDIV_zero)
  from record_divisor_ok [OF assms(4)] obtain s1 where
    rec: "record_divisor cfg s l2 ret_addr 18 (to_float 0) location = Inr s1"
    and same: "last_label s1 = last_label s"
    by blast
  from sw rec have sw1: "int_switch inst cfg s l2 x1 0 ret_addr opcode location
      (neg_dx s l1, neg_dx s l2, pos_dx s l1, pos_dx s l2) = Inr (s1, FNaN, FNaN, - 1)"
    by simp
  have "dfsan_int_union inst cfg s l1 l2 x1 0 ret_addr opcode location =
      store_union_label s1 l1 l2 opcode FNaN FNaN location (Some (- 1))"
    by (rule int_union_fresh_eq [OF assms(1) sw1 assms(2)]) (simp_all add: feq_nan)
  moreover from assms(3) same have "last_label s1 + 1 \<noteq> kInitializingLabel"
    by simp
  from store_union_label_ok [OF this, of l1 l2 opcode FNaN FNaN location "Some (- 1)"]
  obtain s' where
    "store_union_label s1 l1 l2 opcode FNaN FNaN location (Some (- 1)) =
       Inr (s', last_label s1 + 1)"
    "li_neg_dydx (label_info s' (last_label s1 + 1)) = FNaN"
    "li_pos_dydx (label_info s' (last_label s1 + 1)) = FNaN"
    by blast
  ultimately show "\<exists>s'. dfsan_int_union inst cfg s l1 l2 x1 0 ret_addr opcode location =
                     Inr (s', last_label s + 1)
                 \<and> is_nan (li_neg_dydx (label_info s' (last_label s + 1)))
                 \<and> is_nan (li_pos_dydx (label_info s' (last_label s + 1)))"
    using same by (auto simp: is_nan_FNaN)
qed


text \<open>Dividing the labelled \<open>x\<close> by an unlabelled zero, as floats and as ints.\<close>

theorem division_by_zero_witness:
  "unat (19 :: 64 word) = FDIV \<and> unat (18 :: 16 word) = SDIV \<and> is_zero fzero
   \<and> ndebug release_cfg \<and> reuse_labels release_cfg
   \<and> neg_dx st_x 1 = fone \<and> \<not> is_zero fone \<and> last_label st_x = 1
   \<and> (\<exists>s'. dfsan_float_union binary32 release_cfg st_x 1 0 fone fzero 0 19 None = Inr (s', 2)
          \<and> is_nan (li_neg_dydx (label_info s' 2)) \<and> is_nan (li_pos_dydx (label_info s' 2)))
   \<and> (\<exists>s'. dfsan_int_union int_inst release_cfg st_x 1 0 5 0 0 18 None = Inr (s', 2)
          \<and> is_nan (li_neg_dydx (label_info s' 2)) \<and> is_nan (li_pos_dydx (label_info s' 2)))"
proof -
  have a: "(1 :: dfsan_label) \<noteq> 0 \<or> (0 :: dfsan_label) \<noteq> 0"
    by simp
  have b: "\<not> (reuse_labels release_cfg \<and> is_zero (neg_dx st_x 1) \<and> is_zero (pos_dx st_x 1)
            \<and> is_zero (neg_dx st_x 0) \<and> is_zero (pos_dx st_x 0))"
    by (simp add: st_x_facts fone_facts)
  have c: "last_label st_x + 1 \<noteq> kInitializingLabel"
    by (simp add: st_x_facts kInitializingLabel_def)
  have d: "(0 :: dfsan_label) = 0 \<or> gr_mode_perf release_cfg
      \<or> unat (arg_index st_x) < FUNC_ARGS_SIZE"
    by simp
  have e: "last_label st_x + 1 = 2"
    by (simp add: st_x_facts)
  from division_by_zero [OF a b c d, of 19 fzero binary32 fone 0 None 18 int_inst 5]
  show ?thesis
    unfolding e
    by (simp add: opcode_numbers FDIV_def SDIV_def is_zero_fzero release_cfg_simps st_x_facts
        fone_facts)
qed

text \<open>
  The claim as stated fails when label reuse is on and the dividend carries a label of
  derivative zero, such as that of \<open>x - x\<close>: the call returns the dividend's label
  before it looks at the opcode, and the derivatives of that label are zero, not NaN.
\<close>

theorem division_by_zero_counterexample:
  "dfsan_int_union int_inst example_cfg st_x 1 1 3 3 0 13 None = Inr (st_diff, 2)
   \<and> unat (19 :: 64 word) = FDIV \<and> is_zero fzero
   \<and> dfsan_float_union binary32 example_cfg st_diff 2 0 fone fzero 0 19 None = Inr (st_diff, 2)
   \<and> \<not> is_nan (li_neg_dydx (label_info st_diff 2))
   \<and> \<not> is_nan (li_pos_dydx (label_info st_diff 2))"
proof -
  have "dfsan_float_union binary32 example_cfg st_diff 2 0 fone fzero 0 19 None =
      Inr (st_diff, 2)"
    by (rule float_union_early_eq)
      (simp_all add: st_diff_facts is_zero_fzero example_cfg_def)
  then show ?thesis
    using st_diff_run_int
    by (simp add: st_diff_facts FDIV_def is_zero_fzero is_nan_def) (simp add: fzero_def)
qed

subsection \<open>Reading the label of a range\<close>

text \<open>
  Claim C8.  For a range of \<open>size > 0\<close> bytes, \<open>dfsan_read_label\<close> returns the label of
  the first byte when every byte of the range carries that same label, and the label
  table is not touched; when some byte of the range carries another label, the call
  does not return: the process ends.
\<close>

theorem read_label_uniform:
  assumes "sz \<noteq> 0"
  shows "((\<forall>i < unat sz. shadow s (shadow_for smask addr + i) = shadow s (shadow_for smask addr))
            \<longrightarrow> dfsan_read_label cfg smask s addr sz = Inr (shadow s (shadow_for smask addr)))
       \<and> ((\<exists>i < unat sz. shadow s (shadow_for smask addr + i) \<noteq> shadow s (shadow_for smask addr))
            \<longrightarrow> (\<exists>e. dfsan_read_label cfg smask s addr sz = Inl e))"
proof -
  from assms have one: "(1 :: 64 word) \<le> sz"
    by (simp add: word_le_nat_alt unat_gt_0 Suc_le_eq)
  have same: "dfsan_read_label cfg smask s addr sz = Inr (shadow s (shadow_for smask addr))"
    if "\<forall>i < unat sz. shadow s (shadow_for smask addr + i) = shadow s (shadow_for smask addr)"
    using assms one that
    by (simp add: dfsan_read_label_def dfsan_union_load_def union_load_loop_same)
  have differ: "\<exists>e. dfsan_read_label cfg smask s addr sz = Inl e"
    if "\<exists>i < unat sz. shadow s (shadow_for smask addr + i) \<noteq> shadow s (shadow_for smask addr)"
  proof -
    from that obtain i where i: "i < unat sz"
      "shadow s (shadow_for smask addr + i) \<noteq> shadow s (shadow_for smask addr)"
      by blast
    then have "i \<noteq> 0"
      by (cases i) auto
    with i have "\<exists>j. unat (1 :: 64 word) \<le> j \<and> j < unat sz
        \<and> shadow s (shadow_for smask addr + j) \<noteq> shadow s (shadow_for smask addr)"
      by (intro exI [of _ i]) simp
    with one have "\<exists>e. union_load_loop cfg s (shadow_for smask addr) sz 1
        (shadow s (shadow_for smask addr)) = Inl e"
      by (rule union_load_loop_differ)
    with assms show ?thesis
      by (simp add: dfsan_read_label_def dfsan_union_load_def)
  qed
  from same differ show ?thesis
    by blast
qed

text \<open>Four bytes labelled 2 read as 2; a byte labelled 1 followed by one labelled 2
  ends the run.\<close>

theorem read_label_uniform_witness:
  "shadow st_uniform (shadow_for (- 1) 100) = 2
   \<and> shadow st_uniform (shadow_for (- 1) 100 + 1) = 2
   \<and> shadow st_uniform (shadow_for (- 1) 100 + 2) = 2
   \<and> shadow st_uniform (shadow_for (- 1) 100 + 3) = 2
   \<and> dfsan_read_label example_cfg (- 1) st_uniform 100 4 = Inr 2
   \<and> shadow st_mixed (shadow_for (- 1) 100) = 1
   \<and> shadow st_mixed (shadow_for (- 1) 100 + 1) = 2
   \<and> (\<exists>e. dfsan_read_label example_cfg (- 1) st_mixed 100 2 = Inl e)"
proof -
  have u: "\<forall>i < unat (4 :: 64 word). shadow st_uniform (shadow_for (- 1) 100 + i) = 2"
    by (simp add: st_uniform_def shadow_set_label shadow_for_all)
  then have u': "\<forall>i < unat (4 :: 64 word).
      shadow st_uniform (shadow_for (- 1) 100 + i) = shadow st_uniform (shadow_for (- 1) 100)"
    by (simp add: st_uniform_def shadow_set_label shadow_for_all)
  have m: "shadow st_mixed (shadow_for (- 1) 100) = 1"
    "shadow st_mixed (shadow_for (- 1) 100 + 1) = 2"
    by (simp_all add: st_mixed_def shadow_set_label shadow_for_all)
  then have m': "\<exists>i < unat (2 :: 64 word).
      shadow st_mixed (shadow_for (- 1) 100 + i) \<noteq> shadow st_mixed (shadow_for (- 1) 100)"
    by (intro exI [of _ 1]) simp
  have nz: "(4 :: 64 word) \<noteq> 0" "(2 :: 64 word) \<noteq> 0"
    by simp_all
  from read_label_uniform [OF nz(1), of st_uniform "- 1" 100 example_cfg] u'
  have "dfsan_read_label example_cfg (- 1) st_uniform 100 4 =
      Inr (shadow st_uniform (shadow_for (- 1) 100))"
    by blast
  moreover from u have "shadow st_uniform (shadow_for (- 1) 100) = 2"
    by (simp add: st_uniform_def shadow_set_label shadow_for_all)
  moreover from read_label_uniform [OF nz(2), of st_mixed "- 1" 100 example_cfg] m'
  have "\<exists>e. dfsan_read_label example_cfg (- 1) st_mixed 100 2 = Inl e"
    by blast
  moreover have "shadow st_uniform (shadow_for (- 1) 100 + 1) = 2"
    "shadow st_uniform (shadow_for (- 1) 100 + 2) = 2"
    "shadow st_uniform (shadow_for (- 1) 100 + 3) = 2"
    by (simp_all add: st_uniform_def shadow_set_label shadow_for_all)
  ultimately show ?thesis
    using m by simp
qed


text \<open>
  The claim as stated fails for a range whose bytes carry different labels: after two
  labels were created and written to neighbouring bytes, reading the two bytes does
  not return their union but reports a non-instrumented union and ends the process.
\<close>

theorem read_label_counterexample:
  "dfsan_create_label st_x (Some ''x2'') = Inr (st_x2, 2)
   \<and> shadow st_mixed (shadow_for (- 1) 100) = 1
   \<and> shadow st_mixed (shadow_for (- 1) 100 + 1) = 2
   \<and> dfsan_read_label example_cfg (- 1) st_mixed 100 2 = Inl NonInstrumentedUnion"
proof -
  from st_mixed_union obtain r where
    "dfsan_union example_cfg st_mixed 1 2 0 0 0 0 None = Inr r"
    by blast
  then have "union_load_loop example_cfg st_mixed 100 2 1 1 = Inl NonInstrumentedUnion"
    by (subst union_load_loop.simps) (simp add: st_mixed_facts)
  then show ?thesis
    using st_x2_run
    by (simp add: dfsan_read_label_def dfsan_union_load_def shadow_for_all st_mixed_facts)
qed


subsection \<open>Membership in the provenance graph\<close>

text \<open>
  Claim C9.  \<open>dfsan_has_label(label, elem)\<close> should hold exactly when \<open>elem\<close> is \<open>label\<close>
  or is reached from it along parent links.  The function follows the parents only
  when the first parent is not 0.  In the state of the example program, where label 1
  is created for \<open>x\<close> and label 2 is that of \<open>4 * x\<close>, with parents 0 and 1, label 1 is
  a parent of label 2 and \<open>dfsan_has_label(2, 1)\<close> is false, at every depth of the
  recursion.
\<close>

theorem has_label_skips_second_parent:
  "dfsan_create_label (dfsan_flush dfsan_init) (Some ''x'') = Inr (st_x, 1)
   \<and> dfsan_union example_cfg st_x 0 1 4 1 0 15 None = Inr (st_y, 2)
   \<and> reachable example_cfg st_y
   \<and> li_l1 (label_info st_y 2) = 0 \<and> li_l2 (label_info st_y 2) = 1
   \<and> (1, 2) \<in> parent_rel st_y
   \<and> dfsan_has_label (Suc fuel) st_y 2 1 = Some False"
  using st_x_run st_y_run st_y_reachable
  by (simp add: st_y_facts parent_rel_def dfsan_get_label_info_def)

subsection \<open>Finite-difference sampling\<close>





end
